theory Spec2Isabelle
  imports Complex_Main "HOL-Library.AList"
begin

section \<open>Python values, exceptions and observable events\<close>

text \<open>
  The program is one Python class, \<open>PiCameraWebThing\<close>. Its values are dynamically
  typed, so the model has one type of Python values. A finite Python float is modelled
  by the real number it stands for, \<open>PFloat x\<close>: the rounding of binary64 arithmetic
  is not modelled, its range is. The floats that are not finite are \<open>PInf\<close>,
  \<open>PNegInf\<close> and \<open>PNaN\<close>.
\<close>

datatype pyval =
  PNone | PBool bool | PInt int | PFloat real | PInf | PNegInf | PNaN | PStr string

text \<open>The exceptions that occur: those of the interpreter and those of the two drivers.\<close>

datatype exn =
  ZeroDivisionError | ValueError | TypeError | OverflowError | PiCameraError | OSError

text \<open>The attributes of the camera handle that the program assigns or reads.\<close>

datatype setting =
  Resolution | Rotation | Iso | Framerate | ShutterSpeed | SensorMode | ExposureMode

datatype hwop = Open | Assign setting pyval | Read setting | Capture | StartPreview

text \<open>The \<open>Value\<close> objects created in \<open>__init__\<close>, under the names of their attributes.\<close>

datatype value_cell =
  resolution_value | framerate_value | exposure_mode_value
  | base64_still_image_value | temperature_value | humidity_value

text \<open>
  What a run does to the outside is recorded as a list of events, oldest first:
  taking and releasing \<open>camera_lock\<close>, a call of the camera driver (recorded when
  it is made, whether or not it raises), a call of the bus driver, a call of
  \<open>logger.exception\<close>, a call of \<open>time.sleep\<close>, a call of
  \<open>ioloop.add_callback(cell.notify_of_external_update, v)\<close> and the start of a
  thread. Calls of \<open>logger.debug\<close> and \<open>logger.info\<close> are left out.
\<close>

datatype event =
  Acquire | Release
  | Hw hwop
  | BusOpen int | BusWrite int int | BusRead int
  | LogException string
  | Sleep pyval
  | AddCallback value_cell pyval
  | StartThread string

section \<open>The collaborators: camera driver, bus driver, interpreter built-ins\<close>

text \<open>
  The camera driver, the bus driver and the built-ins of the interpreter are not part
  of the repository. They are parameters of the model: any behaviour is allowed, and
  every call returns a result (\<open>Inr\<close>) or an exception (\<open>Inl\<close>) together with the
  new hardware state.
  \<open>cam_resolution\<close> is the read of \<open>camera.resolution\<close> (a pair of integers),
  \<open>cam_framerate\<close> the read of \<open>camera.framerate\<close> (a number),
  \<open>cam_exposure_mode\<close> the read of \<open>camera.exposure_mode\<close>.
\<close>

record 'c picamera =
  cam_open :: "'c \<Rightarrow> (exn + unit) \<times> 'c"
  cam_assign :: "setting \<Rightarrow> pyval \<Rightarrow> 'c \<Rightarrow> (exn + unit) \<times> 'c"
  cam_resolution :: "'c \<Rightarrow> (exn + int \<times> int) \<times> 'c"
  cam_framerate :: "'c \<Rightarrow> (exn + real) \<times> 'c"
  cam_exposure_mode :: "'c \<Rightarrow> (exn + pyval) \<times> 'c"
  cam_capture :: "pyval \<Rightarrow> 'c \<Rightarrow> (exn + string) \<times> 'c"
  cam_start_preview :: "'c \<Rightarrow> (exn + unit) \<times> 'c"

record 'b smbus =
  bus_open :: "int \<Rightarrow> 'b \<Rightarrow> (exn + unit) \<times> 'b"
  write_byte :: "int \<Rightarrow> int \<Rightarrow> 'b \<Rightarrow> (exn + unit) \<times> 'b"
  read_byte :: "int \<Rightarrow> 'b \<Rightarrow> (exn + int) \<times> 'b"

text \<open>
  \<open>b64encode\<close> is \<open>base64.b64encode\<close> followed by the decoding to text,
  \<open>float_of_str\<close> is \<open>float\<close> on a string: the float it returns, finite or
  not, and \<open>None\<close> where it raises \<open>ValueError\<close>; \<open>float_repr\<close> is
  \<open>"{}".format\<close> on a float.
\<close>

record pylib =
  b64encode :: "string \<Rightarrow> string"
  float_of_str :: "string \<Rightarrow> pyval option"
  float_repr :: "real \<Rightarrow> string"

section \<open>The state of a \<open>PiCameraWebThing\<close>\<close>

text \<open>
  The attributes set from the configuration in \<open>__init__\<close>, the state of the camera
  behind \<open>self.camera\<close>, the state of the I2C bus, and the events so far.
\<close>

record ('c, 'b) thing =
  camera :: 'c
  i2c :: 'b
  si7021_enabled :: bool
  sensors_update_interval :: pyval
  use_video_port :: pyval
  framerate :: pyval
  iso :: pyval
  rotation :: pyval
  shutter_speed :: pyval
  sensor_mode :: pyval
  exposure_mode :: pyval
  resolution :: pyval
  trace :: "event list"

definition emit :: "event \<Rightarrow> ('c, 'b) thing \<Rightarrow> ('c, 'b) thing" where
  "emit ev st = st\<lparr>trace := trace st @ [ev]\<rparr>"

text \<open>
  \<open>with self.camera_lock: body\<close>. An exception of the body is a value of the result
  type, so the lock is released on every path, as the \<open>with\<close> statement does.
\<close>

definition with_camera_lock ::
  "(('c, 'b) thing \<Rightarrow> 'r \<times> ('c, 'b) thing) \<Rightarrow> ('c, 'b) thing \<Rightarrow> 'r \<times> ('c, 'b) thing" where
  "with_camera_lock body st = (case body (emit Acquire st) of (r, st') \<Rightarrow> (r, emit Release st'))"

text \<open>One call of the camera driver on \<open>self.camera\<close>.\<close>

definition hw_call ::
  "hwop \<Rightarrow> ('c \<Rightarrow> 'r \<times> 'c) \<Rightarrow> ('c, 'b) thing \<Rightarrow> 'r \<times> ('c, 'b) thing" where
  "hw_call op f st = (case f (camera st) of (r, c') \<Rightarrow> (r, (emit (Hw op) st)\<lparr>camera := c'\<rparr>))"

section \<open>Formatting integers\<close>

text \<open>\<open>"{}".format(n)\<close> for an integer: decimal digits, a minus sign when negative.\<close>

definition digit_char :: "nat \<Rightarrow> char" where
  "digit_char d = ''0123456789'' ! d"

function str_nat :: "nat \<Rightarrow> string" where
  "str_nat n = (if n < 10 then [digit_char n] else str_nat (n div 10) @ [digit_char (n mod 10)])"
  by pat_completeness auto
termination
  by (relation "measure (\<lambda>n. n)") auto

declare str_nat.simps [simp del]

definition str_int :: "int \<Rightarrow> string" where
  "str_int i = (if i < 0 then ''-'' @ str_nat (nat (- i)) else str_nat (nat i))"

section \<open>Reading and writing the camera settings\<close>

definition get_still_image ::
  "'c picamera \<Rightarrow> pylib \<Rightarrow> ('c, 'b) thing \<Rightarrow> (exn + string) \<times> ('c, 'b) thing" where
  "get_still_image cam lib st =
     (case with_camera_lock (hw_call Capture (cam_capture cam (use_video_port st))) st of
        (Inl e, st') \<Rightarrow> (Inl e, st')
      | (Inr image_stream, st') \<Rightarrow> (Inr (b64encode lib image_stream), st'))"

definition get_resolution ::
  "'c picamera \<Rightarrow> ('c, 'b) thing \<Rightarrow> (exn + pyval) \<times> ('c, 'b) thing" where
  "get_resolution cam st =
     (case with_camera_lock (hw_call (Read Resolution) (cam_resolution cam)) st of
        (Inl e, st') \<Rightarrow> (Inl e, st')
      | (Inr (width, height), st') \<Rightarrow>
          (Inr (PStr (str_int width @ ''x'' @ str_int height)), st'))"

definition set_resolution ::
  "'c picamera \<Rightarrow> pyval \<Rightarrow> ('c, 'b) thing \<Rightarrow> bool \<times> ('c, 'b) thing" where
  "set_resolution cam v =
     with_camera_lock (\<lambda>st.
       case hw_call (Assign Resolution v) (cam_assign cam Resolution v) st of
         (Inr _, st') \<Rightarrow> (True, st'\<lparr>resolution := v\<rparr>)
       | (Inl e, st') \<Rightarrow> (False, emit (LogException ''Failed to set resolution'') st'))"

definition get_framerate ::
  "'c picamera \<Rightarrow> pylib \<Rightarrow> ('c, 'b) thing \<Rightarrow> (exn + pyval) \<times> ('c, 'b) thing" where
  "get_framerate cam lib st =
     (case with_camera_lock (hw_call (Read Framerate) (cam_framerate cam)) st of
        (Inl e, st') \<Rightarrow> (Inl e, st')
      | (Inr fr, st') \<Rightarrow> (Inr (PStr (float_repr lib fr)), st'))"

definition set_framerate ::
  "'c picamera \<Rightarrow> pyval \<Rightarrow> ('c, 'b) thing \<Rightarrow> bool \<times> ('c, 'b) thing" where
  "set_framerate cam v =
     with_camera_lock (\<lambda>st.
       case hw_call (Assign Framerate v) (cam_assign cam Framerate v) st of
         (Inr _, st') \<Rightarrow> (True, st'\<lparr>framerate := v\<rparr>)
       | (Inl e, st') \<Rightarrow> (False, emit (LogException ''Failed to set framerate'') st'))"

definition get_exposure_mode ::
  "'c picamera \<Rightarrow> ('c, 'b) thing \<Rightarrow> (exn + pyval) \<times> ('c, 'b) thing" where
  "get_exposure_mode cam st =
     with_camera_lock (hw_call (Read ExposureMode) (cam_exposure_mode cam)) st"

definition set_exposure_mode ::
  "'c picamera \<Rightarrow> pyval \<Rightarrow> ('c, 'b) thing \<Rightarrow> bool \<times> ('c, 'b) thing" where
  "set_exposure_mode cam v =
     with_camera_lock (\<lambda>st.
       case hw_call (Assign ExposureMode v) (cam_assign cam ExposureMode v) st of
         (Inr _, st') \<Rightarrow> (True, st'\<lparr>exposure_mode := v\<rparr>)
       | (Inl e, st') \<Rightarrow> (False, emit (LogException ''Failed to set exposure mode'') st'))"

section \<open>Sequencing, sleeping and the conversion to float\<close>

text \<open>
  Two statements in sequence: an exception of the first skips the second.
\<close>

definition and_then ::
  "('s \<Rightarrow> (exn + 'a) \<times> 's) \<Rightarrow> ('a \<Rightarrow> 's \<Rightarrow> (exn + 'r) \<times> 's) \<Rightarrow> 's \<Rightarrow> (exn + 'r) \<times> 's" where
  "and_then f g st = (case f st of (Inl e, st') \<Rightarrow> (Inl e, st') | (Inr x, st') \<Rightarrow> g x st')"

text \<open>The finite numbers among the Python values.\<close>

definition py_number :: "pyval \<Rightarrow> real option" where
  "py_number v =
     (case v of
        PBool b \<Rightarrow> Some (if b then 1 else 0)
      | PInt i \<Rightarrow> Some (real_of_int i)
      | PFloat x \<Rightarrow> Some x
      | _ \<Rightarrow> None)"

text \<open>
  \<open>time.sleep(v)\<close>. The interpreter first converts the length to a signed 64-bit
  number of nanoseconds: \<open>TypeError\<close> unless \<open>v\<close> is a number, \<open>ValueError\<close> for
  the float that is not a number, \<open>OverflowError\<close> when the length does not fit, an
  infinite one included. Then a negative length is a \<open>ValueError\<close>.
\<close>

definition sleep_limit :: real where
  "sleep_limit = 2 ^ 63 / 10 ^ 9"

definition sleep_raises :: "pyval \<Rightarrow> exn option" where
  "sleep_raises v =
     (case v of
        PNaN \<Rightarrow> Some ValueError
      | PInf \<Rightarrow> Some OverflowError
      | PNegInf \<Rightarrow> Some OverflowError
      | _ \<Rightarrow>
          (case py_number v of
             None \<Rightarrow> Some TypeError
           | Some x \<Rightarrow>
               if x < - sleep_limit \<or> sleep_limit \<le> x then Some OverflowError
               else if x < 0 then Some ValueError
               else None))"

definition time_sleep :: "pyval \<Rightarrow> ('c, 'b) thing \<Rightarrow> (exn + unit) \<times> ('c, 'b) thing" where
  "time_sleep v st =
     (case sleep_raises v of
        Some e \<Rightarrow> (Inl e, st)
      | None \<Rightarrow> (Inr (), emit (Sleep v) st))"

text \<open>
  The range of binary64: a real number of magnitude \<open>float_overflow\<close> or more does
  not round to a finite float.
\<close>

definition float_overflow :: real where
  "float_overflow = 2 ^ 1024 - 2 ^ 970"

text \<open>
  A number as a float, as arithmetic and \<open>float\<close> convert it: a float is itself, an
  integer too large for a float is an \<open>OverflowError\<close>, and a value that is not a
  number is a \<open>TypeError\<close>.
\<close>

definition to_float :: "pyval \<Rightarrow> exn + pyval" where
  "to_float v =
     (case v of
        PBool b \<Rightarrow> Inr (PFloat (if b then 1 else 0))
      | PInt i \<Rightarrow>
          if float_overflow \<le> \<bar>real_of_int i\<bar> then Inl OverflowError
          else Inr (PFloat (real_of_int i))
      | PFloat x \<Rightarrow> Inr v
      | PInf \<Rightarrow> Inr v
      | PNegInf \<Rightarrow> Inr v
      | PNaN \<Rightarrow> Inr v
      | _ \<Rightarrow> Inl TypeError)"

text \<open>\<open>float(v)\<close>: a string is parsed, every other value is converted as a number.\<close>

definition py_float :: "pylib \<Rightarrow> pyval \<Rightarrow> exn + pyval" where
  "py_float lib v =
     (case v of
        PStr s \<Rightarrow> (case float_of_str lib s of None \<Rightarrow> Inl ValueError | Some f \<Rightarrow> Inr f)
      | _ \<Rightarrow> to_float v)"

text \<open>
  \<open>1.0 / v\<close>: the division of floats. A zero divisor is a \<open>ZeroDivisionError\<close>, a
  quotient beyond the range of the floats is an infinity, and the quotient by an
  infinity is zero.
\<close>

definition one_over :: "pyval \<Rightarrow> exn + pyval" where
  "one_over v =
     (case to_float v of
        Inl e \<Rightarrow> Inl e
      | Inr f \<Rightarrow>
          (case f of
             PFloat x \<Rightarrow>
               if x = 0 then Inl ZeroDivisionError
               else if float_overflow \<le> 1 / x then Inr PInf
               else if 1 / x \<le> - float_overflow then Inr PNegInf
               else Inr (PFloat (1 / x))
           | PInf \<Rightarrow> Inr (PFloat 0)
           | PNegInf \<Rightarrow> Inr (PFloat 0)
           | PNaN \<Rightarrow> Inr PNaN
           | _ \<Rightarrow> Inl TypeError))"

section \<open>The camera loop\<close>

text \<open>
  \<open>if cell is not None and v is not None: ioloop.add_callback(...)\<close>. The
  \<open>Value\<close> objects are created in \<open>__init__\<close> and never \<open>None\<close>.
\<close>

definition add_callback_unless_None ::
  "value_cell \<Rightarrow> pyval \<Rightarrow> ('c, 'b) thing \<Rightarrow> ('c, 'b) thing" where
  "add_callback_unless_None cell v st = (if v \<noteq> PNone then emit (AddCallback cell v) st else st)"

text \<open>
  The four \<open>try\<close> blocks of an iteration of \<open>camera_loop\<close>, in order, each with its
  \<open>except Exception\<close> handler.
\<close>

definition update_image :: "'c picamera \<Rightarrow> pylib \<Rightarrow> ('c, 'b) thing \<Rightarrow> ('c, 'b) thing" where
  "update_image cam lib st =
     (case get_still_image cam lib st of
        (Inr img, st') \<Rightarrow> add_callback_unless_None base64_still_image_value (PStr img) st'
      | (Inl e, st') \<Rightarrow>
          emit (LogException ''Exception occured while updating image property'') st')"

definition update_resolution :: "'c picamera \<Rightarrow> ('c, 'b) thing \<Rightarrow> ('c, 'b) thing" where
  "update_resolution cam st =
     (case get_resolution cam st of
        (Inr v, st') \<Rightarrow> add_callback_unless_None resolution_value v st'
      | (Inl e, st') \<Rightarrow>
          emit (LogException ''Exception occured while updating resolution property'') st')"

definition update_framerate :: "'c picamera \<Rightarrow> pylib \<Rightarrow> ('c, 'b) thing \<Rightarrow> ('c, 'b) thing" where
  "update_framerate cam lib st =
     (case get_framerate cam lib st of
        (Inr v, st') \<Rightarrow> add_callback_unless_None framerate_value v st'
      | (Inl e, st') \<Rightarrow>
          emit (LogException ''Exception occured while updating framerate property'') st')"

definition update_exposure_mode :: "'c picamera \<Rightarrow> ('c, 'b) thing \<Rightarrow> ('c, 'b) thing" where
  "update_exposure_mode cam st =
     (case get_exposure_mode cam st of
        (Inr v, st') \<Rightarrow> add_callback_unless_None exposure_mode_value v st'
      | (Inl e, st') \<Rightarrow>
          emit (LogException ''Exception occured while updating exposure_mode property'') st')"

text \<open>\<open>wait_interval = 1.0 / float(self.framerate)\<close>, outside every \<open>try\<close> block.\<close>

definition wait_interval :: "pylib \<Rightarrow> pyval \<Rightarrow> exn + pyval" where
  "wait_interval lib fr =
     (case py_float lib fr of
        Inl e \<Rightarrow> Inl e
      | Inr f \<Rightarrow> one_over f)"

text \<open>
  One iteration of \<open>while True\<close>. \<open>Inl e\<close>: the exception \<open>e\<close> leaves the loop and
  ends the thread.
\<close>

definition camera_loop_body ::
  "'c picamera \<Rightarrow> pylib \<Rightarrow> ('c, 'b) thing \<Rightarrow> (exn + unit) \<times> ('c, 'b) thing" where
  "camera_loop_body cam lib st =
     (let st1 = update_image cam lib st;
          st2 = update_resolution cam st1;
          st3 = update_framerate cam lib st2;
          st4 = update_exposure_mode cam st3
      in case wait_interval lib (framerate st4) of
           Inl e \<Rightarrow> (Inl e, st4)
         | Inr w \<Rightarrow> time_sleep w st4)"

text \<open>
  The loop never returns; \<open>camera_loop cam lib n\<close> runs its first \<open>n\<close> iterations, or
  fewer when one of them raises.
\<close>

fun camera_loop ::
  "'c picamera \<Rightarrow> pylib \<Rightarrow> nat \<Rightarrow> ('c, 'b) thing \<Rightarrow> (exn + unit) \<times> ('c, 'b) thing" where
  "camera_loop cam lib 0 st = (Inr (), st)"
| "camera_loop cam lib (Suc n) st =
     (case camera_loop_body cam lib st of
        (Inl e, st') \<Rightarrow> (Inl e, st')
      | (Inr _, st') \<Rightarrow> camera_loop cam lib n st')"

section \<open>Camera setup\<close>

definition assign :: "'c picamera \<Rightarrow> setting \<Rightarrow> pyval \<Rightarrow> ('c, 'b) thing \<Rightarrow> (exn + unit) \<times> ('c, 'b) thing" where
  "assign cam k v = hw_call (Assign k v) (cam_assign cam k v)"

text \<open>
  No statement of \<open>camera_setup\<close> is inside a \<open>try\<close>: an exception of the driver ends
  the setup (and the start of the process).
\<close>

definition camera_setup ::
  "'c picamera \<Rightarrow> ('c, 'b) thing \<Rightarrow> (exn + unit) \<times> ('c, 'b) thing" where
  "camera_setup cam =
     and_then (hw_call Open (cam_open cam)) (\<lambda>_.
     and_then (with_camera_lock (\<lambda>st.
         (and_then (assign cam Resolution (resolution st)) (\<lambda>_.
          and_then (assign cam Rotation (rotation st)) (\<lambda>_.
          and_then (assign cam Iso (iso st)) (\<lambda>_.
          and_then (assign cam Framerate (PFloat 30.0)) (\<lambda>_.
          and_then (assign cam ShutterSpeed (shutter_speed st)) (\<lambda>_.
          and_then (assign cam SensorMode (sensor_mode st)) (\<lambda>_.
          and_then (assign cam ExposureMode (exposure_mode st)) (\<lambda>_.
          hw_call StartPreview (cam_start_preview cam))))))))) st)) (\<lambda>_.
     and_then (time_sleep (PInt 3)) (\<lambda>_.
     and_then (with_camera_lock (\<lambda>st. assign cam Framerate (framerate st) st)) (\<lambda>_.
     (\<lambda>st. (Inr (), emit (StartThread ''camera_loop'') st))))))"

section \<open>The sensor loop\<close>

text \<open>One call of the bus driver.\<close>

definition bus_call ::
  "event \<Rightarrow> ('b \<Rightarrow> 'r \<times> 'b) \<Rightarrow> ('c, 'b) thing \<Rightarrow> 'r \<times> ('c, 'b) thing" where
  "bus_call ev f st = (case f (i2c st) of (r, b') \<Rightarrow> (r, (emit ev st)\<lparr>i2c := b'\<rparr>))"

text \<open>
  The \<open>try\<close> block of \<open>get_si7021_values\<close> in two parts: up to the assignment of
  \<open>humidity\<close>, and from there to the assignment of \<open>temperature\<close> in degrees
  Fahrenheit. \<open>data0\<close> and \<open>data1\<close> are Python integers, the division is that of
  floats.
\<close>

definition measure_humidity ::
  "'b smbus \<Rightarrow> ('c, 'b) thing \<Rightarrow> (exn + real) \<times> ('c, 'b) thing" where
  "measure_humidity bus =
     and_then (bus_call (BusOpen 1) (bus_open bus 1)) (\<lambda>_.
     and_then (bus_call (BusWrite 0x40 0xF5) (write_byte bus 0x40 0xF5)) (\<lambda>_.
     and_then (time_sleep (PFloat 0.3)) (\<lambda>_.
     and_then (bus_call (BusRead 0x40) (read_byte bus 0x40)) (\<lambda>data0.
     and_then (bus_call (BusRead 0x40) (read_byte bus 0x40)) (\<lambda>data1.
     (\<lambda>st. (Inr ((real_of_int ((data0 * 256 + data1) * 125) / 65536.0) - 6), st)))))))"

definition measure_temperature ::
  "'b smbus \<Rightarrow> ('c, 'b) thing \<Rightarrow> (exn + real) \<times> ('c, 'b) thing" where
  "measure_temperature bus =
     and_then (time_sleep (PFloat 0.3)) (\<lambda>_.
     and_then (bus_call (BusWrite 0x40 0xF3) (write_byte bus 0x40 0xF3)) (\<lambda>_.
     and_then (time_sleep (PFloat 0.3)) (\<lambda>_.
     and_then (bus_call (BusRead 0x40) (read_byte bus 0x40)) (\<lambda>data0.
     and_then (bus_call (BusRead 0x40) (read_byte bus 0x40)) (\<lambda>data1.
     (\<lambda>st. (let temperature = (real_of_int (data0 * 256 + data1) * 175.72 / 65536.0) - 46.85
             in (Inr ((temperature * 1.8) + 32), st))))))))"

text \<open>
  \<open>get_si7021_values\<close> returns the pair \<open>(temperature, humidity)\<close>; a variable keeps
  its initial \<open>None\<close> when the exception came before its assignment.
\<close>

definition get_si7021_values ::
  "'b smbus \<Rightarrow> ('c, 'b) thing \<Rightarrow> (pyval \<times> pyval) \<times> ('c, 'b) thing" where
  "get_si7021_values bus st =
     (case measure_humidity bus st of
        (Inl e, st') \<Rightarrow>
          ((PNone, PNone), emit (LogException ''Failed to get si7021 sensor data'') st')
      | (Inr humidity, st') \<Rightarrow>
          (case measure_temperature bus st' of
             (Inl e, st'') \<Rightarrow>
               ((PNone, PFloat humidity),
                emit (LogException ''Failed to get si7021 sensor data'') st'')
           | (Inr temperature, st'') \<Rightarrow> ((PFloat temperature, PFloat humidity), st'')))"

text \<open>
  One iteration of \<open>sensor_loop\<close>. Nothing inside its \<open>try\<close> block raises, since
  \<open>get_si7021_values\<close> handles every exception itself; the \<open>time.sleep\<close> is outside.
\<close>

definition sensor_loop_body ::
  "'b smbus \<Rightarrow> ('c, 'b) thing \<Rightarrow> (exn + unit) \<times> ('c, 'b) thing" where
  "sensor_loop_body bus st =
     (case (if si7021_enabled st then get_si7021_values bus st else ((PNone, PNone), st)) of
        ((temperature, humidity), st1) \<Rightarrow>
          (let st2 = add_callback_unless_None temperature_value temperature st1;
               st3 = add_callback_unless_None humidity_value humidity st2
           in time_sleep (sensors_update_interval st3) st3))"

fun sensor_loop ::
  "'b smbus \<Rightarrow> nat \<Rightarrow> ('c, 'b) thing \<Rightarrow> (exn + unit) \<times> ('c, 'b) thing" where
  "sensor_loop bus 0 st = (Inr (), st)"
| "sensor_loop bus (Suc n) st =
     (case sensor_loop_body bus st of
        (Inl e, st') \<Rightarrow> (Inl e, st')
      | (Inr _, st') \<Rightarrow> sensor_loop bus n st')"

definition sensor_setup :: "('c, 'b) thing \<Rightarrow> ('c, 'b) thing" where
  "sensor_setup st = (if si7021_enabled st then emit (StartThread ''sensor_loop'') st else st)"

section \<open>The properties of the device\<close>

text \<open>
  A \<open>Property\<close> is its metadata and its \<open>Value\<close>; \<open>Thing.add_property\<close> stores it
  under its name, in the order of insertion.
\<close>

record property =
  md_type :: string
  md_unit :: string
  md_choices :: "string list option"
  md_friendlyName :: string
  md_description :: string
  prop_value :: value_cell

definition add_property ::
  "string \<Rightarrow> property \<Rightarrow> (string \<times> property) list \<Rightarrow> (string \<times> property) list" where
  "add_property name p props = AList.update name p props"

text \<open>
  \<open>sorted(EXPOSURE_MODES, key = EXPOSURE_MODES.__getitem__)\<close>. The dictionary
  \<open>picamera.PiCamera.EXPOSURE_MODES\<close> (name to index) belongs to the driver; it is a
  parameter, given as the list of its items.
\<close>

definition sorted_exposure_modes :: "(string \<times> int) list \<Rightarrow> string list" where
  "sorted_exposure_modes modes = sort_key (\<lambda>k. the (map_of modes k)) (map fst modes)"

definition webthing_setup ::
  "(string \<times> int) list \<Rightarrow> ('c, 'b) thing \<Rightarrow> (string \<times> property) list" where
  "webthing_setup EXPOSURE_MODES st =
     (let props = [];
          props = add_property ''resolution''
            \<lparr>md_type = ''choice'', md_unit = [],
             md_choices = Some [''320x240'', ''640x480'', ''800x600'', ''1024x768'',
                                ''1296x972'', ''1640x1232'', ''3280x2464''],
             md_friendlyName = ''Resolution'',
             md_description = ''The current camera resolution'',
             prop_value = resolution_value\<rparr> props;
          props = add_property ''framerate''
            \<lparr>md_type = ''choice'', md_unit = ''FPS'',
             md_choices = Some [''0.0'', ''0.1'', ''0.5'', ''1.0'', ''2.0'', ''3.0'', ''4.0'',
                                ''5.0'', ''6.0'', ''7.0'', ''8.0'', ''9.0'', ''10.0'', ''15.0'',
                                ''20.0'', ''30.0''],
             md_friendlyName = ''Framerate'',
             md_description = ''The current camera frame rate'',
             prop_value = framerate_value\<rparr> props;
          props = add_property ''stillImage''
            \<lparr>md_type = ''stillImage'', md_unit = ''base64'',
             md_choices = None,
             md_friendlyName = ''Image'',
             md_description = ''A still image from the camera'',
             prop_value = base64_still_image_value\<rparr> props;
          props = add_property ''exposureMode''
            \<lparr>md_type = ''choice'', md_unit = [],
             md_choices = Some (sorted_exposure_modes EXPOSURE_MODES),
             md_friendlyName = ''Exposure'',
             md_description = ''A still image from the camera'',
             prop_value = exposure_mode_value\<rparr> props
      in if si7021_enabled st then
           (let props = add_property ''temperature''
                  \<lparr>md_type = ''label'', md_unit = [CHR 0xC2, CHR 0xB0],
                   md_choices = None,
                   md_friendlyName = ''Temperature'',
                   md_description = ''The current camera temperature'',
                   prop_value = temperature_value\<rparr> props;
                props = add_property ''humidity''
                  \<lparr>md_type = ''label'', md_unit = ''%'',
                   md_choices = None,
                   md_friendlyName = ''Humidity'',
                   md_description = ''The current camera humidity level'',
                   prop_value = humidity_value\<rparr> props
            in props)
         else props)"

section \<open>The value cells\<close>

text \<open>
  The contents of the \<open>Value\<close> objects after \<open>__init__\<close>: the configured
  resolution, framerate and exposure mode, the empty string, and \<open>0.0\<close> twice.
\<close>

definition initial_values :: "('c, 'b) thing \<Rightarrow> value_cell \<Rightarrow> pyval" where
  "initial_values st cell =
     (case cell of
        resolution_value \<Rightarrow> resolution st
      | framerate_value \<Rightarrow> framerate st
      | exposure_mode_value \<Rightarrow> exposure_mode st
      | base64_still_image_value \<Rightarrow> PStr []
      | temperature_value \<Rightarrow> PFloat 0.0
      | humidity_value \<Rightarrow> PFloat 0.0)"

text \<open>
  Python's \<open>==\<close>: the float that is not a number equals nothing, finite numbers
  compare by value, everything else structurally.
\<close>

definition py_eq :: "pyval \<Rightarrow> pyval \<Rightarrow> bool" where
  "py_eq a b =
     (if a = PNaN \<or> b = PNaN then False
      else case (py_number a, py_number b) of
             (Some x, Some y) \<Rightarrow> x = y
           | _ \<Rightarrow> a = b)"

text \<open>
  Modelled from the spec: \<open>Value.notify_of_external_update\<close> belongs to the serving
  library and is not in the repository. The specification (section 4.1, \<open>set_internal\<close>)
  says that it overwrites the stored value if the new one differs from it, and does
  nothing if they are equal. The library also ignores \<open>None\<close>.
\<close>

definition notify_of_external_update ::
  "value_cell \<Rightarrow> pyval \<Rightarrow> (value_cell \<Rightarrow> pyval) \<Rightarrow> (value_cell \<Rightarrow> pyval)" where
  "notify_of_external_update cell v vals =
     (if v \<noteq> PNone \<and> \<not> py_eq v (vals cell) then vals(cell := v) else vals)"

text \<open>The callbacks handed to the I/O loop run in the order in which they were added.\<close>

fun run_callbacks :: "event list \<Rightarrow> (value_cell \<Rightarrow> pyval) \<Rightarrow> (value_cell \<Rightarrow> pyval)" where
  "run_callbacks [] vals = vals"
| "run_callbacks (AddCallback cell v # evs) vals =
     run_callbacks evs (notify_of_external_update cell v vals)"
| "run_callbacks (_ # evs) vals = run_callbacks evs vals"

section \<open>Observing a run\<close>

text \<open>The events that a step added to the trace.\<close>

definition events_since :: "('c, 'b) thing \<Rightarrow> ('c, 'b) thing \<Rightarrow> event list" where
  "events_since st st' = drop (length (trace st)) (trace st')"

text \<open>The values handed to one cell, and the calls of the camera driver, in order.\<close>

fun callbacks_for :: "value_cell \<Rightarrow> event list \<Rightarrow> pyval list" where
  "callbacks_for cell [] = []"
| "callbacks_for cell (AddCallback c v # evs) =
     (if c = cell then v # callbacks_for cell evs else callbacks_for cell evs)"
| "callbacks_for cell (_ # evs) = callbacks_for cell evs"

fun hw_calls :: "event list \<Rightarrow> hwop list" where
  "hw_calls [] = []"
| "hw_calls (Hw op # evs) = op # hw_calls evs"
| "hw_calls (_ # evs) = hw_calls evs"

fun logged :: "event list \<Rightarrow> string list" where
  "logged [] = []"
| "logged (LogException msg # evs) = msg # logged evs"
| "logged (_ # evs) = logged evs"

section \<open>Threads and the camera lock\<close>

text \<open>
  The seven methods through which the camera loop and the setters of the \<open>Value\<close>
  objects reach the camera, and the driver call that each of them makes.
\<close>

datatype operation =
  GetStillImage | GetResolution | SetResolution pyval | GetFramerate | SetFramerate pyval
  | GetExposureMode | SetExposureMode pyval

definition run_operation ::
  "'c picamera \<Rightarrow> pylib \<Rightarrow> operation \<Rightarrow> ('c, 'b) thing \<Rightarrow> ('c, 'b) thing" where
  "run_operation cam lib op st =
     (case op of
        GetStillImage \<Rightarrow> snd (get_still_image cam lib st)
      | GetResolution \<Rightarrow> snd (get_resolution cam st)
      | SetResolution v \<Rightarrow> snd (set_resolution cam v st)
      | GetFramerate \<Rightarrow> snd (get_framerate cam lib st)
      | SetFramerate v \<Rightarrow> snd (set_framerate cam v st)
      | GetExposureMode \<Rightarrow> snd (get_exposure_mode cam st)
      | SetExposureMode v \<Rightarrow> snd (set_exposure_mode cam v st))"

definition call_of :: "operation \<Rightarrow> hwop" where
  "call_of op =
     (case op of
        GetStillImage \<Rightarrow> Capture
      | GetResolution \<Rightarrow> Read Resolution
      | SetResolution v \<Rightarrow> Assign Resolution v
      | GetFramerate \<Rightarrow> Read Framerate
      | SetFramerate v \<Rightarrow> Assign Framerate v
      | GetExposureMode \<Rightarrow> Read ExposureMode
      | SetExposureMode v \<Rightarrow> Assign ExposureMode v)"

text \<open>
  What a thread does, one action after the other: it performs one of the seven
  operations, on the device as it finds it, or it does one of the other things that the
  camera loop and the setters do (hand a value to the I/O loop, log, sleep). Its
  events are those of its actions.
\<close>

datatype ('c, 'b) action =
  Perform operation "('c, 'b) thing" | Push value_cell pyval | Report string | Pause pyval

fun action_events :: "'c picamera \<Rightarrow> pylib \<Rightarrow> ('c, 'b) action \<Rightarrow> event list" where
  "action_events cam lib (Perform op st) = events_since st (run_operation cam lib op st)"
| "action_events cam lib (Push cell v) = [AddCallback cell v]"
| "action_events cam lib (Report msg) = [LogException msg]"
| "action_events cam lib (Pause v) = [Sleep v]"

definition thread_events :: "'c picamera \<Rightarrow> pylib \<Rightarrow> ('c, 'b) action list \<Rightarrow> event list" where
  "thread_events cam lib acts = concat (map (action_events cam lib) acts)"

text \<open>
  Threads are numbered. A system of threads is the events each thread has still to do,
  the thread that took \<open>camera_lock\<close> last and has not released it, and the events
  done so far, each with its thread. One step of thread \<open>t\<close> does its next event;
  \<open>Acquire\<close> waits while the lock is taken, as \<open>threading.Lock\<close> does, and a
  thread with nothing to do or waiting leaves the system as it is.
\<close>

record sys =
  pending :: "nat \<Rightarrow> event list"
  holder :: "nat option"
  history :: "(nat \<times> event) list"

definition start :: "(nat \<Rightarrow> event list) \<Rightarrow> sys" where
  "start progs = \<lparr>pending = progs, holder = None, history = []\<rparr>"

definition step :: "nat \<Rightarrow> sys \<Rightarrow> sys" where
  "step t s =
     (case pending s t of
        [] \<Rightarrow> s
      | ev # rest \<Rightarrow>
          if ev = Acquire then
            (if holder s = None
             then s\<lparr>pending := (pending s)(t := rest), holder := Some t,
                    history := history s @ [(t, ev)]\<rparr>
             else s)
          else if ev = Release then
            s\<lparr>pending := (pending s)(t := rest), holder := None,
              history := history s @ [(t, ev)]\<rparr>
          else
            s\<lparr>pending := (pending s)(t := rest), history := history s @ [(t, ev)]\<rparr>)"

text \<open>A schedule is the list of the threads that step, in order.\<close>

fun run :: "sys \<Rightarrow> nat list \<Rightarrow> sys" where
  "run s [] = s"
| "run s (t # sched) = run (step t s) sched"

text \<open>
  Reading a history from a given holder of the lock: \<open>None\<close> if some thread takes the
  lock while it is held, or releases it or calls the camera driver while it does not
  hold it; otherwise the holder at the end.
\<close>

fun exclusive_from :: "nat option \<Rightarrow> (nat \<times> event) list \<Rightarrow> nat option option" where
  "exclusive_from h [] = Some h"
| "exclusive_from h ((t, Acquire) # xs) =
     (if h = None then exclusive_from (Some t) xs else None)"
| "exclusive_from h ((t, Release) # xs) =
     (if h = Some t then exclusive_from None xs else None)"
| "exclusive_from h ((t, Hw op) # xs) =
     (if h = Some t then exclusive_from h xs else None)"
| "exclusive_from h (_ # xs) = exclusive_from h xs"

text \<open>
  The same reading for the events of one thread: \<open>None\<close> if it takes the lock while it
  holds it, or releases it or calls the driver while it does not; otherwise whether it
  holds the lock at the end.
\<close>

fun held_after :: "bool \<Rightarrow> event list \<Rightarrow> bool option" where
  "held_after held [] = Some held"
| "held_after held (Acquire # evs) = (if held then None else held_after True evs)"
| "held_after held (Release # evs) = (if held then held_after False evs else None)"
| "held_after held (Hw op # evs) = (if held then held_after held evs else None)"
| "held_after held (_ # evs) = held_after held evs"

text \<open>
  The invariant of a system: what each thread has still to do is in order given
  whether it holds the lock, and the history is in order and ends with the holder.
\<close>

definition sys_inv :: "sys \<Rightarrow> bool" where
  "sys_inv s \<longleftrightarrow>
     (\<forall>t. held_after (holder s = Some t) (pending s t) \<noteq> None)
     \<and> exclusive_from None (history s) = Some (holder s)"

section \<open>Test doubles\<close>

text \<open>
  Concrete collaborators on which the theorems below are run. The camera keeps a
  resolution, a framerate and an exposure mode; it accepts the seven advertised
  resolutions and a framerate between 0 and 90, and every call raises while it is not
  healthy.
\<close>

record fake_camera =
  fc_healthy :: bool
  fc_resolution :: "int \<times> int"
  fc_framerate :: real
  fc_exposure_mode :: pyval

definition known_resolutions :: "(string \<times> int \<times> int) list" where
  "known_resolutions =
     [(''320x240'', (320, 240)), (''640x480'', (640, 480)), (''800x600'', (800, 600)),
      (''1024x768'', (1024, 768)), (''1296x972'', (1296, 972)),
      (''1640x1232'', (1640, 1232)), (''3280x2464'', (3280, 2464))]"

definition fake_assign :: "setting \<Rightarrow> pyval \<Rightarrow> fake_camera \<Rightarrow> (exn + unit) \<times> fake_camera" where
  "fake_assign k v c =
     (if \<not> fc_healthy c then (Inl PiCameraError, c)
      else case k of
        Resolution \<Rightarrow>
          (case v of
             PStr s \<Rightarrow>
               (case map_of known_resolutions s of
                  Some wh \<Rightarrow> (Inr (), c\<lparr>fc_resolution := wh\<rparr>)
                | None \<Rightarrow> (Inl PiCameraError, c))
           | _ \<Rightarrow> (Inl PiCameraError, c))
      | Framerate \<Rightarrow>
          (case py_number v of
             Some x \<Rightarrow>
               if 0 \<le> x \<and> x \<le> 90 then (Inr (), c\<lparr>fc_framerate := x\<rparr>)
               else (Inl PiCameraError, c)
           | None \<Rightarrow> (Inl PiCameraError, c))
      | ExposureMode \<Rightarrow> (Inr (), c\<lparr>fc_exposure_mode := v\<rparr>)
      | _ \<Rightarrow> (Inr (), c))"

definition fake_read :: "(fake_camera \<Rightarrow> 'r) \<Rightarrow> fake_camera \<Rightarrow> (exn + 'r) \<times> fake_camera" where
  "fake_read f c = (if fc_healthy c then (Inr (f c), c) else (Inl PiCameraError, c))"

definition fake_picamera :: "fake_camera picamera" where
  "fake_picamera =
     \<lparr>cam_open = fake_read (\<lambda>_. ()),
      cam_assign = fake_assign,
      cam_resolution = fake_read fc_resolution,
      cam_framerate = fake_read fc_framerate,
      cam_exposure_mode = fake_read fc_exposure_mode,
      cam_capture = (\<lambda>_. fake_read (\<lambda>_. ''JFIF'')),
      cam_start_preview = fake_read (\<lambda>_. ())\<rparr>"

text \<open>
  The bus is a script of answers, one for each call in turn: \<open>Some n\<close> lets the call
  succeed (a read returns \<open>n\<close>), \<open>None\<close> or the end of the script makes it raise.
\<close>

definition fake_answer :: "int option list \<Rightarrow> (exn + int) \<times> int option list" where
  "fake_answer script =
     (case script of
        Some n # rest \<Rightarrow> (Inr n, rest)
      | None # rest \<Rightarrow> (Inl OSError, rest)
      | [] \<Rightarrow> (Inl OSError, []))"

definition fake_command :: "int option list \<Rightarrow> (exn + unit) \<times> int option list" where
  "fake_command script =
     (case fake_answer script of (Inr _, rest) \<Rightarrow> (Inr (), rest) | (Inl e, rest) \<Rightarrow> (Inl e, rest))"

definition fake_smbus :: "int option list smbus" where
  "fake_smbus =
     \<lparr>bus_open = (\<lambda>_. fake_command),
      write_byte = (\<lambda>_ _. fake_command),
      read_byte = (\<lambda>_. fake_answer)\<rparr>"

text \<open>
  Built-ins that are right on the sixteen advertised framerates: \<open>float\<close> on their
  strings, and the formatting of a non-negative float with one decimal digit.
\<close>

definition fake_float_of_str :: "string \<Rightarrow> pyval option" where
  "fake_float_of_str =
     map_of [(''0.0'', PFloat 0), (''0.1'', PFloat 0.1), (''0.5'', PFloat 0.5),
             (''1.0'', PFloat 1), (''2.0'', PFloat 2), (''3.0'', PFloat 3),
             (''4.0'', PFloat 4), (''5.0'', PFloat 5), (''6.0'', PFloat 6),
             (''7.0'', PFloat 7), (''8.0'', PFloat 8), (''9.0'', PFloat 9),
             (''10.0'', PFloat 10), (''15.0'', PFloat 15), (''20.0'', PFloat 20),
             (''30.0'', PFloat 30)]"

definition fake_float_repr :: "real \<Rightarrow> string" where
  "fake_float_repr x = str_int \<lfloor>x\<rfloor> @ ''.'' @ str_int (\<lfloor>x * 10\<rfloor> mod 10)"

definition fake_pylib :: pylib where
  "fake_pylib =
     \<lparr>b64encode = (\<lambda>bytes. bytes),
      float_of_str = fake_float_of_str,
      float_repr = fake_float_repr\<rparr>"

definition fake_thing :: "(fake_camera, int option list) thing" where
  "fake_thing =
     \<lparr>camera = \<lparr>fc_healthy = True, fc_resolution = (320, 240), fc_framerate = 30,
                fc_exposure_mode = PStr ''auto''\<rparr>,
      i2c = [],
      si7021_enabled = True,
      sensors_update_interval = PInt 60,
      use_video_port = PBool True,
      framerate = PFloat 1.0,
      iso = PInt 0,
      rotation = PInt 0,
      shutter_speed = PInt 0,
      sensor_mode = PInt 0,
      exposure_mode = PStr ''auto'',
      resolution = PStr ''640x480'',
      trace = []\<rparr>"

text \<open>The same device with a camera on which every call raises.\<close>

definition broken_thing :: "(fake_camera, int option list) thing" where
  "broken_thing = fake_thing\<lparr>camera := (camera fake_thing)\<lparr>fc_healthy := False\<rparr>\<rparr>"

section \<open>Predicates used in the proofs\<close>

text \<open>
  A step is quiet when it only adds events to the trace and starts no thread; it starts
  the camera thread last when it only adds events and the start of the camera thread is
  among them only if the step returned normally.
\<close>

definition quiet :: "(('c, 'b) thing \<Rightarrow> 'r \<times> ('c, 'b) thing) \<Rightarrow> bool" where
  "quiet f \<longleftrightarrow>
     (\<forall>st. \<exists>evs. trace (snd (f st)) = trace st @ evs \<and> (\<forall>name. StartThread name \<notin> set evs))"

definition starts_last :: "(('c, 'b) thing \<Rightarrow> (exn + unit) \<times> ('c, 'b) thing) \<Rightarrow> bool" where
  "starts_last f \<longleftrightarrow>
     (\<forall>st. \<exists>evs. trace (snd (f st)) = trace st @ evs
        \<and> (StartThread ''camera_loop'' \<in> set evs \<longrightarrow> fst (f st) = Inr ()))"

section \<open>Lemmas shared by the proofs\<close>

lemmas facade_defs = set_resolution_def set_framerate_def set_exposure_mode_def
  get_resolution_def get_framerate_def get_exposure_mode_def get_still_image_def
  with_camera_lock_def hw_call_def emit_def

lemmas loop_defs = update_image_def update_resolution_def update_framerate_def
  update_exposure_mode_def add_callback_unless_None_def

lemmas fake_camera_defs = fake_picamera_def fake_assign_def fake_read_def fake_thing_def
  known_resolutions_def py_number_def

text \<open>The four steps of an iteration leave the cached framerate alone.\<close>

lemma update_image_framerate: "framerate (update_image cam lib st) = framerate st"
  by (simp add: loop_defs facade_defs split: prod.splits sum.splits)

lemma update_resolution_framerate: "framerate (update_resolution cam st) = framerate st"
  by (simp add: loop_defs facade_defs split: prod.splits sum.splits)

lemma update_framerate_framerate: "framerate (update_framerate cam lib st) = framerate st"
  by (simp add: loop_defs facade_defs split: prod.splits sum.splits)

lemma update_exposure_mode_framerate: "framerate (update_exposure_mode cam st) = framerate st"
  by (simp add: loop_defs facade_defs split: prod.splits sum.splits)

lemmas update_framerate_frame = update_image_framerate update_resolution_framerate
  update_framerate_framerate update_exposure_mode_framerate

text \<open>The limit of \<open>time.sleep\<close> is within the range of the floats.\<close>

lemma float_overflow_pos: "0 < float_overflow"
  by (simp add: float_overflow_def)

lemma sleep_limit_less_overflow: "sleep_limit < float_overflow"
  by (simp add: sleep_limit_def float_overflow_def)

lemma sleep_raises_ok:
  assumes "py_number v = Some x" and "0 \<le> x" and "x < sleep_limit"
  shows "sleep_raises v = None"
  using assms by (cases v) (simp_all add: sleep_raises_def py_number_def)

lemma sleep_raises_overflow:
  assumes "py_number v = Some x" and "sleep_limit \<le> x"
  shows "sleep_raises v = Some OverflowError"
  using assms by (cases v) (simp_all add: sleep_raises_def py_number_def)

text \<open>The lengths that the program itself sleeps for are within the limit.\<close>

lemma time_sleep_3: "time_sleep (PInt 3) st = (Inr (), emit (Sleep (PInt 3)) st)"
  by (simp add: time_sleep_def sleep_raises_def py_number_def sleep_limit_def)

lemma time_sleep_pause:
  "time_sleep (PFloat 0.3) st = (Inr (), emit (Sleep (PFloat 0.3)) st)"
  by (simp add: time_sleep_def sleep_raises_def py_number_def sleep_limit_def)

lemma str_int_640: "str_int 640 = ''640''"
  by code_simp

lemma str_int_480: "str_int 480 = ''480''"
  by code_simp

section \<open>Writes of resolution, framerate and exposure mode\<close>

text \<open>
  Claim C1. For each of \<open>set_resolution\<close>, \<open>set_framerate\<close> and
  \<open>set_exposure_mode\<close>, whatever the driver does: if the assignment to the camera
  handle raises, the setter returns \<open>False\<close> and the cached attribute
  (\<open>self.resolution\<close>, \<open>self.framerate\<close>, \<open>self.exposure_mode\<close>) is what it was
  before the call; if the assignment succeeds, the setter returns \<open>True\<close> and the
  cached attribute is the written value.
\<close>

theorem setters_return_and_cache:
  "(\<forall>e. fst (cam_assign cam Resolution v (camera st)) = Inl e \<longrightarrow>
      fst (set_resolution cam v st) = False
      \<and> resolution (snd (set_resolution cam v st)) = resolution st)
   \<and> (\<forall>u. fst (cam_assign cam Resolution v (camera st)) = Inr u \<longrightarrow>
      fst (set_resolution cam v st) = True
      \<and> resolution (snd (set_resolution cam v st)) = v)
   \<and> (\<forall>e. fst (cam_assign cam Framerate v (camera st)) = Inl e \<longrightarrow>
      fst (set_framerate cam v st) = False
      \<and> framerate (snd (set_framerate cam v st)) = framerate st)
   \<and> (\<forall>u. fst (cam_assign cam Framerate v (camera st)) = Inr u \<longrightarrow>
      fst (set_framerate cam v st) = True
      \<and> framerate (snd (set_framerate cam v st)) = v)
   \<and> (\<forall>e. fst (cam_assign cam ExposureMode v (camera st)) = Inl e \<longrightarrow>
      fst (set_exposure_mode cam v st) = False
      \<and> exposure_mode (snd (set_exposure_mode cam v st)) = exposure_mode st)
   \<and> (\<forall>u. fst (cam_assign cam ExposureMode v (camera st)) = Inr u \<longrightarrow>
      fst (set_exposure_mode cam v st) = True
      \<and> exposure_mode (snd (set_exposure_mode cam v st)) = v)"
  by (simp add: facade_defs split: prod.splits sum.splits)

text \<open>
  On the test camera: the write of \<open>800x600\<close> is accepted, and the write of the
  framerate \<open>fast\<close> is refused and leaves the configured \<open>1.0\<close> in place.
\<close>

theorem setters_return_and_cache_witness:
  "fst (cam_assign fake_picamera Resolution (PStr ''800x600'') (camera fake_thing)) = Inr ()
   \<and> fst (set_resolution fake_picamera (PStr ''800x600'') fake_thing) = True
   \<and> resolution (snd (set_resolution fake_picamera (PStr ''800x600'') fake_thing))
       = PStr ''800x600''
   \<and> fst (cam_assign fake_picamera Framerate (PStr ''fast'') (camera fake_thing))
       = Inl PiCameraError
   \<and> fst (set_framerate fake_picamera (PStr ''fast'') fake_thing) = False
   \<and> framerate (snd (set_framerate fake_picamera (PStr ''fast'') fake_thing)) = PFloat 1.0"
proof -
  have ok: "fst (cam_assign fake_picamera Resolution (PStr ''800x600'') (camera fake_thing))
      = Inr ()"
    by (simp add: fake_camera_defs)
  have bad: "fst (cam_assign fake_picamera Framerate (PStr ''fast'') (camera fake_thing))
      = Inl PiCameraError"
    by (simp add: fake_camera_defs)
  have cached: "framerate fake_thing = PFloat 1.0"
    by (simp add: fake_thing_def)
  from setters_return_and_cache [of fake_picamera "PStr ''800x600''" fake_thing] ok
  have 1: "fst (set_resolution fake_picamera (PStr ''800x600'') fake_thing) = True
    \<and> resolution (snd (set_resolution fake_picamera (PStr ''800x600'') fake_thing))
        = PStr ''800x600''"
    by blast
  from setters_return_and_cache [of fake_picamera "PStr ''fast''" fake_thing] bad
  have 2: "fst (set_framerate fake_picamera (PStr ''fast'') fake_thing) = False
    \<and> framerate (snd (set_framerate fake_picamera (PStr ''fast'') fake_thing))
        = framerate fake_thing"
    by blast
  from ok bad 1 2 cached show ?thesis by simp
qed

section \<open>The resolution round trip\<close>

text \<open>
  Claim C4. A resolution string of the form \<open><width>x<height>\<close>, the two numbers
  written as Python formats integers, survives the round trip: if the camera accepts
  the string and then reports that width and that height, \<open>set_resolution\<close> returns
  \<open>True\<close> and the following \<open>get_resolution\<close> returns the very same string.
\<close>

theorem resolution_round_trip:
  assumes accepted:
    "cam_assign cam Resolution (PStr (str_int w @ ''x'' @ str_int h)) (camera st) = (Inr (), c')"
    and stored: "cam_resolution cam c' = (Inr (w, h), c'')"
  shows "fst (set_resolution cam (PStr (str_int w @ ''x'' @ str_int h)) st) = True
     \<and> fst (get_resolution cam
              (snd (set_resolution cam (PStr (str_int w @ ''x'' @ str_int h)) st)))
         = Inr (PStr (str_int w @ ''x'' @ str_int h))"
  using assms by (simp add: facade_defs)

text \<open>On the test camera, \<open>640x480\<close> is written and read back unchanged.\<close>

theorem resolution_round_trip_witness:
  "fst (set_resolution fake_picamera (PStr ''640x480'') fake_thing) = True
   \<and> fst (get_resolution fake_picamera
            (snd (set_resolution fake_picamera (PStr ''640x480'') fake_thing)))
       = Inr (PStr ''640x480'')"
proof -
  have fmt: "str_int 640 @ ''x'' @ str_int 480 = ''640x480''"
    by (simp add: str_int_640 str_int_480)
  have accepted:
    "cam_assign fake_picamera Resolution (PStr (str_int 640 @ ''x'' @ str_int 480))
       (camera fake_thing)
     = (Inr (), (camera fake_thing)\<lparr>fc_resolution := (640, 480)\<rparr>)"
    unfolding fmt by (simp add: fake_camera_defs)
  have stored:
    "cam_resolution fake_picamera ((camera fake_thing)\<lparr>fc_resolution := (640, 480)\<rparr>)
     = (Inr (640, 480), (camera fake_thing)\<lparr>fc_resolution := (640, 480)\<rparr>)"
    by (simp add: fake_camera_defs)
  from resolution_round_trip [OF accepted stored] show ?thesis
    unfolding fmt .
qed

section \<open>The sleep interval of the camera loop\<close>

text \<open>
  Claim C2 says that the sleep interval is computed with the framerate clamped to a
  positive floor, so that a framerate of 0 neither divides by zero nor gives a
  non-positive interval. The code has no such floor. With the cached framerate 0,
  \<open>1.0 / float(self.framerate)\<close> raises \<open>ZeroDivisionError\<close>, and since the
  statement is outside every \<open>try\<close> block the exception leaves \<open>camera_loop\<close>.
\<close>

theorem zero_framerate_counterexample:
  "wait_interval fake_pylib (PFloat 0) = Inl ZeroDivisionError
   \<and> fst (camera_loop_body fake_picamera fake_pylib (fake_thing\<lparr>framerate := PFloat 0\<rparr>))
       = Inl ZeroDivisionError"
  by (simp add: wait_interval_def py_float_def to_float_def one_over_def camera_loop_body_def
        Let_def update_framerate_frame)

text \<open>
  Claim C2, amended. The sleep interval is \<open>1 / float(framerate)\<close>, unclamped. For
  every cached framerate whose float value \<open>x\<close> is finite and strictly positive the
  division succeeds and the interval is strictly positive: it is \<open>1 / x\<close>, or the
  infinite float when \<open>1 / x\<close> is beyond the range of the floats. When \<open>1 / x\<close> is
  below the limit of \<open>time.sleep\<close> the iteration ends by sleeping for it; otherwise
  \<open>time.sleep\<close> raises \<open>OverflowError\<close>, which leaves the loop.
\<close>

theorem wait_interval_positive:
  fixes cam :: "'c picamera" and st :: "('c, 'b) thing"
  assumes "py_float lib (framerate st) = Inr (PFloat x)" and "0 < x"
  shows "wait_interval lib (framerate st)
           = Inr (if float_overflow \<le> 1 / x then PInf else PFloat (1 / x))
     \<and> 0 < 1 / x
     \<and> (1 / x < sleep_limit \<longrightarrow>
           fst (camera_loop_body cam lib st) = Inr ()
           \<and> last (trace (snd (camera_loop_body cam lib st))) = Sleep (PFloat (1 / x)))
     \<and> (sleep_limit \<le> 1 / x \<longrightarrow>
           fst (camera_loop_body cam lib st) = Inl OverflowError)"
proof -
  from assms(2) have pos: "0 < 1 / x" and nz: "x \<noteq> 0"
    by simp_all
  from float_overflow_pos pos have low: "\<not> 1 / x \<le> - float_overflow"
    by linarith
  from assms(1) nz low
  have interval: "wait_interval lib (framerate st)
      = Inr (if float_overflow \<le> 1 / x then PInf else PFloat (1 / x))"
    by (simp add: wait_interval_def one_over_def to_float_def)
  have body: "camera_loop_body cam lib st
      = time_sleep (if float_overflow \<le> 1 / x then PInf else PFloat (1 / x))
          (update_exposure_mode cam (update_framerate cam lib
             (update_resolution cam (update_image cam lib st))))"
    using interval by (simp add: camera_loop_body_def Let_def update_framerate_frame)
  have short: "fst (camera_loop_body cam lib st) = Inr ()
      \<and> last (trace (snd (camera_loop_body cam lib st))) = Sleep (PFloat (1 / x))"
    if "1 / x < sleep_limit"
  proof -
    from that sleep_limit_less_overflow have "\<not> float_overflow \<le> 1 / x"
      by linarith
    moreover from pos that have "sleep_raises (PFloat (1 / x)) = None"
      by (intro sleep_raises_ok [where x = "1 / x"]) (simp_all add: py_number_def)
    ultimately show ?thesis
      unfolding body by (simp add: time_sleep_def emit_def)
  qed
  have long: "fst (camera_loop_body cam lib st) = Inl OverflowError"
    if "sleep_limit \<le> 1 / x"
  proof (cases "float_overflow \<le> 1 / x")
    case True
    then show ?thesis
      unfolding body by (simp add: time_sleep_def sleep_raises_def)
  next
    case False
    moreover from that have "sleep_raises (PFloat (1 / x)) = Some OverflowError"
      by (intro sleep_raises_overflow [where x = "1 / x"]) (simp_all add: py_number_def)
    ultimately show ?thesis
      unfolding body by (simp add: time_sleep_def)
  qed
  from interval pos short long show ?thesis
    by blast
qed

text \<open>
  With the configured framerate \<open>1.0\<close> the iteration sleeps for one second; with the
  framerate \<open>1 / 10 ^ 10\<close> the interval is \<open>10 ^ 10\<close> seconds and the sleep raises.
\<close>

theorem wait_interval_positive_witness:
  "py_float fake_pylib (framerate fake_thing) = Inr (PFloat 1) \<and> (0::real) < 1
   \<and> wait_interval fake_pylib (framerate fake_thing) = Inr (PFloat 1)
   \<and> fst (camera_loop_body fake_picamera fake_pylib fake_thing) = Inr ()
   \<and> last (trace (snd (camera_loop_body fake_picamera fake_pylib fake_thing)))
       = Sleep (PFloat 1)
   \<and> py_float fake_pylib (framerate (fake_thing\<lparr>framerate := PFloat (1 / 10 ^ 10)\<rparr>))
       = Inr (PFloat (1 / 10 ^ 10))
   \<and> wait_interval fake_pylib (framerate (fake_thing\<lparr>framerate := PFloat (1 / 10 ^ 10)\<rparr>))
       = Inr (PFloat (10 ^ 10))
   \<and> fst (camera_loop_body fake_picamera fake_pylib
            (fake_thing\<lparr>framerate := PFloat (1 / 10 ^ 10)\<rparr>))
       = Inl OverflowError"
proof -
  have fr: "py_float fake_pylib (framerate fake_thing) = Inr (PFloat 1)"
    by (simp add: py_float_def to_float_def fake_thing_def)
  have pos: "(0::real) < 1" by simp
  have small: "\<not> float_overflow \<le> 1 / (1::real)" and short: "1 / (1::real) < sleep_limit"
    by (simp_all add: float_overflow_def sleep_limit_def)
  from wait_interval_positive [OF fr pos, of fake_picamera] small short
  have a: "wait_interval fake_pylib (framerate fake_thing) = Inr (PFloat 1)
      \<and> fst (camera_loop_body fake_picamera fake_pylib fake_thing) = Inr ()
      \<and> last (trace (snd (camera_loop_body fake_picamera fake_pylib fake_thing)))
          = Sleep (PFloat 1)"
    by simp
  have fr': "py_float fake_pylib (framerate (fake_thing\<lparr>framerate := PFloat (1 / 10 ^ 10)\<rparr>))
      = Inr (PFloat (1 / 10 ^ 10))"
    by (simp add: py_float_def to_float_def)
  have pos': "(0::real) < 1 / 10 ^ 10" by simp
  have small': "\<not> float_overflow \<le> 1 / (1 / 10 ^ 10 :: real)"
    and long: "sleep_limit \<le> 1 / (1 / 10 ^ 10 :: real)"
    by (simp_all add: float_overflow_def sleep_limit_def)
  from wait_interval_positive [OF fr' pos', of fake_picamera] small' long
  have b: "wait_interval fake_pylib (framerate (fake_thing\<lparr>framerate := PFloat (1 / 10 ^ 10)\<rparr>))
       = Inr (PFloat (10 ^ 10))
      \<and> fst (camera_loop_body fake_picamera fake_pylib
            (fake_thing\<lparr>framerate := PFloat (1 / 10 ^ 10)\<rparr>))
       = Inl OverflowError"
    by simp
  from fr pos a fr' b show ?thesis
    by simp
qed

section \<open>The sensor loop: what an iteration pushes\<close>

lemmas sensor_defs = measure_humidity_def measure_temperature_def and_then_def bus_call_def
  time_sleep_pause emit_def

lemmas fake_bus_defs = fake_smbus_def fake_command_def fake_answer_def fake_thing_def

text \<open>Neither phase of the bus transaction adds a callback or logs.\<close>

lemma measure_humidity_quiet:
  "\<exists>evs. trace (snd (measure_humidity bus st)) = trace st @ evs
     \<and> (\<forall>c. callbacks_for c evs = []) \<and> logged evs = []"
  by (simp add: sensor_defs split: prod.splits sum.splits)

lemma measure_temperature_quiet:
  "\<exists>evs. trace (snd (measure_temperature bus st)) = trace st @ evs
     \<and> (\<forall>c. callbacks_for c evs = []) \<and> logged evs = []"
  by (simp add: sensor_defs split: prod.splits sum.splits)

lemma callbacks_for_append:
  "callbacks_for c (xs @ ys) = callbacks_for c xs @ callbacks_for c ys"
  by (induction c xs rule: callbacks_for.induct) simp_all

lemma logged_append: "logged (xs @ ys) = logged xs @ logged ys"
  by (induction xs rule: logged.induct) simp_all

lemma hw_calls_append: "hw_calls (xs @ ys) = hw_calls xs @ hw_calls ys"
  by (induction xs rule: hw_calls.induct) simp_all

lemma events_since_append: "trace st' = trace st @ evs \<Longrightarrow> events_since st st' = evs"
  by (simp add: events_since_def)

text \<open>
  Claim C3 says that an iteration pushes the humidity and the temperature only if both
  bus reads succeeded, and pushes neither after any bus error. The code pushes each of
  the two values that was computed. On a bus that answers the humidity phase with the
  bytes \<open>0x20\<close>, \<open>0x00\<close> and fails the command that starts the temperature
  measurement, the iteration logs the error and still pushes the humidity.
\<close>

theorem humidity_pushed_alone_counterexample:
  "trace (snd (sensor_loop_body fake_smbus
      (fake_thing\<lparr>i2c := [Some 0, Some 0, Some 0x20, Some 0x00, None]\<rparr>)))
   = [BusOpen 1, BusWrite 0x40 0xF5, Sleep (PFloat 0.3), BusRead 0x40, BusRead 0x40,
      Sleep (PFloat 0.3), BusWrite 0x40 0xF3,
      LogException ''Failed to get si7021 sensor data'',
      AddCallback humidity_value (PFloat 9.625),
      Sleep (PInt 60)]"
  by (simp add: sensor_loop_body_def get_si7021_values_def sensor_defs fake_bus_defs
        add_callback_unless_None_def time_sleep_def sleep_raises_def py_number_def
        sleep_limit_def)

text \<open>
  Claim C3, amended. In an iteration with the sensor enabled: after an error in the
  humidity phase nothing is pushed; after an error in the temperature phase the
  humidity is pushed and the temperature is not; when both phases succeed the
  temperature and then the humidity are pushed. The error is logged once in the first
  two cases, and nothing is logged in the third.
\<close>

theorem sensor_pushes:
  fixes bus :: "'b smbus" and st :: "('c, 'b) thing"
  assumes enabled: "si7021_enabled st"
  defines "evs \<equiv> events_since st (snd (sensor_loop_body bus st))"
  shows "case measure_humidity bus st of
           (Inl e, s1) \<Rightarrow>
             callbacks_for temperature_value evs = []
             \<and> callbacks_for humidity_value evs = []
             \<and> logged evs = [''Failed to get si7021 sensor data'']
         | (Inr h, s1) \<Rightarrow>
             (case measure_temperature bus s1 of
                (Inl e, s2) \<Rightarrow>
                  callbacks_for temperature_value evs = []
                  \<and> callbacks_for humidity_value evs = [PFloat h]
                  \<and> logged evs = [''Failed to get si7021 sensor data'']
              | (Inr t, s2) \<Rightarrow>
                  callbacks_for temperature_value evs = [PFloat t]
                  \<and> callbacks_for humidity_value evs = [PFloat h]
                  \<and> logged evs = [])"
proof -
  obtain r1 s1 where m1: "measure_humidity bus st = (r1, s1)"
    by (cases "measure_humidity bus st")
  from measure_humidity_quiet [of bus st] m1
  obtain evs1 where t1: "trace s1 = trace st @ evs1"
    and c1: "\<And>c. callbacks_for c evs1 = []" and l1: "logged evs1 = []"
    by auto
  show ?thesis
  proof (cases r1)
    case (Inl e)
    with m1 t1 c1 l1 enabled show ?thesis
      unfolding evs_def
      by (simp add: sensor_loop_body_def get_si7021_values_def add_callback_unless_None_def
            emit_def time_sleep_def events_since_def callbacks_for_append logged_append Let_def
            split: option.splits)
  next
    case (Inr h)
    obtain r2 s2 where m2: "measure_temperature bus s1 = (r2, s2)"
      by (cases "measure_temperature bus s1")
    from measure_temperature_quiet [of bus s1] m2
    obtain evs2 where t2: "trace s2 = trace s1 @ evs2"
      and c2: "\<And>c. callbacks_for c evs2 = []" and l2: "logged evs2 = []"
      by auto
    from Inr m1 m2 t1 t2 c1 c2 l1 l2 enabled show ?thesis
      unfolding evs_def
      by (cases r2)
         (simp_all add: sensor_loop_body_def get_si7021_values_def add_callback_unless_None_def
            emit_def time_sleep_def events_since_def callbacks_for_append logged_append Let_def
            split: option.splits)
  qed
qed

text \<open>
  On the bus of the counterexample the hypothesis holds, the humidity \<open>9.625\<close> is
  pushed alone and the error is logged.
\<close>

theorem sensor_pushes_witness:
  "si7021_enabled (fake_thing\<lparr>i2c := [Some 0, Some 0, Some 0x20, Some 0x00, None]\<rparr>)
   \<and> callbacks_for temperature_value
        (events_since (fake_thing\<lparr>i2c := [Some 0, Some 0, Some 0x20, Some 0x00, None]\<rparr>)
          (snd (sensor_loop_body fake_smbus
            (fake_thing\<lparr>i2c := [Some 0, Some 0, Some 0x20, Some 0x00, None]\<rparr>)))) = []
   \<and> callbacks_for humidity_value
        (events_since (fake_thing\<lparr>i2c := [Some 0, Some 0, Some 0x20, Some 0x00, None]\<rparr>)
          (snd (sensor_loop_body fake_smbus
            (fake_thing\<lparr>i2c := [Some 0, Some 0, Some 0x20, Some 0x00, None]\<rparr>))))
       = [PFloat 9.625]
   \<and> logged
        (events_since (fake_thing\<lparr>i2c := [Some 0, Some 0, Some 0x20, Some 0x00, None]\<rparr>)
          (snd (sensor_loop_body fake_smbus
            (fake_thing\<lparr>i2c := [Some 0, Some 0, Some 0x20, Some 0x00, None]\<rparr>))))
       = [''Failed to get si7021 sensor data'']"
proof -
  have enabled:
    "si7021_enabled (fake_thing\<lparr>i2c := [Some 0, Some 0, Some 0x20, Some 0x00, None]\<rparr>)"
    by (simp add: fake_thing_def)
  from sensor_pushes [OF enabled, of fake_smbus] enabled show ?thesis
    by (simp add: sensor_defs fake_bus_defs)
qed

section \<open>The conversion of the sensor readings\<close>

text \<open>
  Claim C5. When the bus is opened, the humidity measurement is started and the two
  reads return the bytes \<open>hmsb\<close> and \<open>hlsb\<close> (\<open>data0\<close> and \<open>data1\<close> of the
  first phase), the humidity that \<open>get_si7021_values\<close> returns is
  \<open>((hmsb * 256 + hlsb) * 125 / 65536.0) - 6\<close>. When the temperature measurement
  is started as well and its two reads return \<open>tmsb\<close> and \<open>tlsb\<close>, the temperature
  returned is \<open>(((tmsb * 256 + tlsb) * 175.72 / 65536.0) - 46.85) * 1.8 + 32\<close>.
  Both formulas are read over the real numbers, as the floats are throughout.
\<close>

theorem si7021_conversion:
  assumes "bus_open bus 1 (i2c st) = (Inr (), ba)"
      and "write_byte bus 0x40 0xF5 ba = (Inr (), bb)"
      and "read_byte bus 0x40 bb = (Inr hmsb, bc)"
      and "read_byte bus 0x40 bc = (Inr hlsb, bd)"
  shows "snd (fst (get_si7021_values bus st))
           = PFloat ((real_of_int (hmsb * 256 + hlsb) * 125 / 65536.0) - 6)
     \<and> (write_byte bus 0x40 0xF3 bd = (Inr (), be)
          \<and> read_byte bus 0x40 be = (Inr tmsb, bf)
          \<and> read_byte bus 0x40 bf = (Inr tlsb, bg) \<longrightarrow>
        fst (fst (get_si7021_values bus st))
           = PFloat ((((real_of_int (tmsb * 256 + tlsb) * 175.72 / 65536.0) - 46.85) * 1.8) + 32))"
  using assms
  by (simp add: get_si7021_values_def sensor_defs Let_def split: prod.splits sum.splits)

text \<open>
  On a bus that returns \<open>0x20\<close>, \<open>0x00\<close> for the humidity and \<open>0x66\<close>,
  \<open>0x4C\<close> for the temperature; the humidity is
  \<open>((0x20 * 256 + 0x00) * 125 / 65536.0) - 6\<close>, that is \<open>9.625\<close>.
\<close>

theorem si7021_conversion_witness:
  "fst (get_si7021_values fake_smbus
      (fake_thing\<lparr>i2c := [Some 0, Some 0, Some 0x20, Some 0x00, Some 0, Some 0x66, Some 0x4C]\<rparr>))
   = (PFloat ((((real_of_int (0x66 * 256 + 0x4C) * 175.72 / 65536.0) - 46.85) * 1.8) + 32),
      PFloat ((real_of_int (0x20 * 256 + 0x00) * 125 / 65536.0) - 6))
   \<and> (real_of_int (0x20 * 256 + 0x00) * 125 / 65536.0) - 6 = 9.625"
proof -
  let ?st = "fake_thing\<lparr>i2c := [Some 0, Some 0, Some 0x20, Some 0x00, Some 0, Some 0x66, Some 0x4C]\<rparr>
      :: (fake_camera, int option list) thing"
  have 1: "bus_open fake_smbus 1 (i2c ?st)
      = (Inr (), [Some 0, Some 0x20, Some 0x00, Some 0, Some 0x66, Some 0x4C])"
    by (simp add: fake_bus_defs)
  have 2: "write_byte fake_smbus 0x40 0xF5 [Some 0, Some 0x20, Some 0x00, Some 0, Some 0x66, Some 0x4C]
      = (Inr (), [Some 0x20, Some 0x00, Some 0, Some 0x66, Some 0x4C])"
    by (simp add: fake_bus_defs)
  have 3: "read_byte fake_smbus 0x40 [Some 0x20, Some 0x00, Some 0, Some 0x66, Some 0x4C]
      = (Inr 0x20, [Some 0x00, Some 0, Some 0x66, Some 0x4C])"
    by (simp add: fake_bus_defs)
  have 4: "read_byte fake_smbus 0x40 [Some 0x00, Some 0, Some 0x66, Some 0x4C]
      = (Inr 0x00, [Some 0, Some 0x66, Some 0x4C])"
    by (simp add: fake_bus_defs)
  have 5: "write_byte fake_smbus 0x40 0xF3 [Some 0, Some 0x66, Some 0x4C]
      = (Inr (), [Some 0x66, Some 0x4C])"
    by (simp add: fake_bus_defs)
  have 6: "read_byte fake_smbus 0x40 [Some 0x66, Some 0x4C] = (Inr 0x66, [Some 0x4C])"
    by (simp add: fake_bus_defs)
  have 7: "read_byte fake_smbus 0x40 [Some 0x4C] = (Inr 0x4C, [])"
    by (simp add: fake_bus_defs)
  from si7021_conversion [OF 1 2 3 4, where be = "[Some 0x66, Some 0x4C]" and tmsb = "0x66"
      and bf = "[Some 0x4C]" and tlsb = "0x4C" and bg = "[]"]
    5 6 7
  have "snd (fst (get_si7021_values fake_smbus ?st))
          = PFloat ((real_of_int (0x20 * 256 + 0x00) * 125 / 65536.0) - 6)
      \<and> fst (fst (get_si7021_values fake_smbus ?st))
          = PFloat ((((real_of_int (0x66 * 256 + 0x4C) * 175.72 / 65536.0) - 46.85) * 1.8) + 32)"
    by blast
  then show ?thesis
    by (simp add: prod_eq_iff)
qed

section \<open>Failures inside an iteration of the camera loop\<close>

text \<open>The trace and the camera after each of the four steps.\<close>

lemma update_image_trace:
  "trace (update_image cam lib st) =
     trace st @ [Acquire, Hw Capture, Release]
     @ (case fst (cam_capture cam (use_video_port st) (camera st)) of
          Inl e \<Rightarrow> [LogException ''Exception occured while updating image property'']
        | Inr bytes \<Rightarrow> [AddCallback base64_still_image_value (PStr (b64encode lib bytes))])"
  by (simp add: loop_defs facade_defs split: prod.splits sum.splits)

lemma update_image_camera:
  "camera (update_image cam lib st) = snd (cam_capture cam (use_video_port st) (camera st))"
  by (simp add: loop_defs facade_defs split: prod.splits sum.splits)

lemma update_resolution_trace:
  "trace (update_resolution cam st) =
     trace st @ [Acquire, Hw (Read Resolution), Release]
     @ (case fst (cam_resolution cam (camera st)) of
          Inl e \<Rightarrow> [LogException ''Exception occured while updating resolution property'']
        | Inr wh \<Rightarrow>
            [AddCallback resolution_value (PStr (str_int (fst wh) @ ''x'' @ str_int (snd wh)))])"
  by (simp add: loop_defs facade_defs split: prod.splits sum.splits)

lemma update_resolution_camera:
  "camera (update_resolution cam st) = snd (cam_resolution cam (camera st))"
  by (simp add: loop_defs facade_defs split: prod.splits sum.splits)

lemma update_framerate_trace:
  "trace (update_framerate cam lib st) =
     trace st @ [Acquire, Hw (Read Framerate), Release]
     @ (case fst (cam_framerate cam (camera st)) of
          Inl e \<Rightarrow> [LogException ''Exception occured while updating framerate property'']
        | Inr x \<Rightarrow> [AddCallback framerate_value (PStr (float_repr lib x))])"
  by (simp add: loop_defs facade_defs split: prod.splits sum.splits)

lemma update_framerate_camera:
  "camera (update_framerate cam lib st) = snd (cam_framerate cam (camera st))"
  by (simp add: loop_defs facade_defs split: prod.splits sum.splits)

lemma update_exposure_mode_trace:
  "trace (update_exposure_mode cam st) =
     trace st @ [Acquire, Hw (Read ExposureMode), Release]
     @ (case fst (cam_exposure_mode cam (camera st)) of
          Inl e \<Rightarrow> [LogException ''Exception occured while updating exposure_mode property'']
        | Inr v \<Rightarrow> if v \<noteq> PNone then [AddCallback exposure_mode_value v] else [])"
  by (simp add: loop_defs facade_defs split: prod.splits sum.splits)

lemma update_exposure_mode_camera:
  "camera (update_exposure_mode cam st) = snd (cam_exposure_mode cam (camera st))"
  by (simp add: loop_defs facade_defs split: prod.splits sum.splits)

lemma camera_loop_body_result:
  "fst (camera_loop_body cam lib st)
     = (case wait_interval lib (framerate st) of
          Inl e \<Rightarrow> Inl e
        | Inr w \<Rightarrow> (case sleep_raises w of Some e \<Rightarrow> Inl e | None \<Rightarrow> Inr ()))"
  by (simp add: camera_loop_body_def Let_def update_framerate_frame time_sleep_def
        split: sum.splits option.splits)

lemma camera_loop_body_trace:
  "trace (snd (camera_loop_body cam lib st)) =
     trace (update_exposure_mode cam (update_framerate cam lib
        (update_resolution cam (update_image cam lib st))))
     @ (case wait_interval lib (framerate st) of
          Inl e \<Rightarrow> []
        | Inr w \<Rightarrow> (case sleep_raises w of Some e \<Rightarrow> [] | None \<Rightarrow> [Sleep w]))"
  by (simp add: camera_loop_body_def Let_def update_framerate_frame emit_def time_sleep_def
        split: sum.splits option.splits)

lemmas observe_append = callbacks_for_append logged_append hw_calls_append

lemma four_steps_trace:
  fixes cam :: "'c picamera" and lib :: pylib and st :: "('c, 'b) thing"
  defines "capture \<equiv> cam_capture cam (use_video_port st) (camera st)"
  defines "res \<equiv> cam_resolution cam (snd capture)"
  defines "fr \<equiv> cam_framerate cam (snd res)"
  defines "ex \<equiv> cam_exposure_mode cam (snd fr)"
  shows "trace (update_exposure_mode cam (update_framerate cam lib
           (update_resolution cam (update_image cam lib st))))
     = trace st
       @ [Acquire, Hw Capture, Release]
       @ (case fst capture of
            Inl e \<Rightarrow> [LogException ''Exception occured while updating image property'']
          | Inr bytes \<Rightarrow> [AddCallback base64_still_image_value (PStr (b64encode lib bytes))])
       @ [Acquire, Hw (Read Resolution), Release]
       @ (case fst res of
            Inl e \<Rightarrow> [LogException ''Exception occured while updating resolution property'']
          | Inr wh \<Rightarrow>
              [AddCallback resolution_value (PStr (str_int (fst wh) @ ''x'' @ str_int (snd wh)))])
       @ [Acquire, Hw (Read Framerate), Release]
       @ (case fst fr of
            Inl e \<Rightarrow> [LogException ''Exception occured while updating framerate property'']
          | Inr x \<Rightarrow> [AddCallback framerate_value (PStr (float_repr lib x))])
       @ [Acquire, Hw (Read ExposureMode), Release]
       @ (case fst ex of
            Inl e \<Rightarrow> [LogException ''Exception occured while updating exposure_mode property'']
          | Inr v \<Rightarrow> if v \<noteq> PNone then [AddCallback exposure_mode_value v] else [])"
  unfolding capture_def res_def fr_def ex_def
  by (simp only: update_exposure_mode_trace update_framerate_trace update_resolution_trace
        update_image_trace update_exposure_mode_camera update_framerate_camera
        update_resolution_camera update_image_camera append_assoc)

text \<open>
  What one iteration does, in terms of the results of its four driver calls, each made
  on the camera as the previous call left it.
\<close>

lemma camera_loop_body_events:
  fixes cam :: "'c picamera" and lib :: pylib and st :: "('c, 'b) thing"
  defines "capture \<equiv> cam_capture cam (use_video_port st) (camera st)"
  defines "res \<equiv> cam_resolution cam (snd capture)"
  defines "fr \<equiv> cam_framerate cam (snd res)"
  defines "ex \<equiv> cam_exposure_mode cam (snd fr)"
  defines "evs \<equiv> events_since st (snd (camera_loop_body cam lib st))"
  shows "fst (camera_loop_body cam lib st)
           = (case wait_interval lib (framerate st) of
                Inl e \<Rightarrow> Inl e
              | Inr w \<Rightarrow> (case sleep_raises w of Some e \<Rightarrow> Inl e | None \<Rightarrow> Inr ()))
     \<and> hw_calls evs = [Capture, Read Resolution, Read Framerate, Read ExposureMode]
     \<and> callbacks_for base64_still_image_value evs
           = (case fst capture of Inl e \<Rightarrow> [] | Inr bytes \<Rightarrow> [PStr (b64encode lib bytes)])
     \<and> callbacks_for resolution_value evs
           = (case fst res of
                Inl e \<Rightarrow> []
              | Inr (w, h) \<Rightarrow> [PStr (str_int w @ ''x'' @ str_int h)])
     \<and> callbacks_for framerate_value evs
           = (case fst fr of Inl e \<Rightarrow> [] | Inr x \<Rightarrow> [PStr (float_repr lib x)])
     \<and> callbacks_for exposure_mode_value evs
           = (case fst ex of Inl e \<Rightarrow> [] | Inr v \<Rightarrow> if v \<noteq> PNone then [v] else [])
     \<and> logged evs
           = (case fst capture of
                Inl e \<Rightarrow> [''Exception occured while updating image property'']
              | Inr _ \<Rightarrow> [])
           @ (case fst res of
                Inl e \<Rightarrow> [''Exception occured while updating resolution property'']
              | Inr _ \<Rightarrow> [])
           @ (case fst fr of
                Inl e \<Rightarrow> [''Exception occured while updating framerate property'']
              | Inr _ \<Rightarrow> [])
           @ (case fst ex of
                Inl e \<Rightarrow> [''Exception occured while updating exposure_mode property'']
              | Inr _ \<Rightarrow> [])"
proof -
  let ?sleep = "case wait_interval lib (framerate st) of
      Inl e \<Rightarrow> []
    | Inr w \<Rightarrow> (case sleep_raises w of Some e \<Rightarrow> [] | None \<Rightarrow> [Sleep w])"
  have quiet: "hw_calls ?sleep = []" "logged ?sleep = []" "\<And>c. callbacks_for c ?sleep = []"
    by (simp_all split: sum.splits option.splits)
  have evs: "evs = [Acquire, Hw Capture, Release]
       @ (case fst capture of
            Inl e \<Rightarrow> [LogException ''Exception occured while updating image property'']
          | Inr bytes \<Rightarrow> [AddCallback base64_still_image_value (PStr (b64encode lib bytes))])
       @ [Acquire, Hw (Read Resolution), Release]
       @ (case fst res of
            Inl e \<Rightarrow> [LogException ''Exception occured while updating resolution property'']
          | Inr wh \<Rightarrow>
              [AddCallback resolution_value (PStr (str_int (fst wh) @ ''x'' @ str_int (snd wh)))])
       @ [Acquire, Hw (Read Framerate), Release]
       @ (case fst fr of
            Inl e \<Rightarrow> [LogException ''Exception occured while updating framerate property'']
          | Inr x \<Rightarrow> [AddCallback framerate_value (PStr (float_repr lib x))])
       @ [Acquire, Hw (Read ExposureMode), Release]
       @ (case fst ex of
            Inl e \<Rightarrow> [LogException ''Exception occured while updating exposure_mode property'']
          | Inr v \<Rightarrow> if v \<noteq> PNone then [AddCallback exposure_mode_value v] else [])
       @ ?sleep"
    unfolding evs_def events_since_def camera_loop_body_trace
      four_steps_trace capture_def res_def fr_def ex_def
    by simp
  have 1: "hw_calls evs = [Capture, Read Resolution, Read Framerate, Read ExposureMode]"
    unfolding evs by (simp add: observe_append quiet split: sum.splits)
  have 2: "callbacks_for base64_still_image_value evs
           = (case fst capture of Inl e \<Rightarrow> [] | Inr bytes \<Rightarrow> [PStr (b64encode lib bytes)])"
    unfolding evs by (simp add: observe_append quiet split: sum.splits)
  have 3: "callbacks_for resolution_value evs
           = (case fst res of
                Inl e \<Rightarrow> []
              | Inr (w, h) \<Rightarrow> [PStr (str_int w @ ''x'' @ str_int h)])"
    unfolding evs by (simp add: observe_append quiet split: sum.splits)
  have 4: "callbacks_for framerate_value evs
           = (case fst fr of Inl e \<Rightarrow> [] | Inr x \<Rightarrow> [PStr (float_repr lib x)])"
    unfolding evs by (simp add: observe_append quiet split: sum.splits)
  have 5: "callbacks_for exposure_mode_value evs
           = (case fst ex of Inl e \<Rightarrow> [] | Inr v \<Rightarrow> if v \<noteq> PNone then [v] else [])"
    unfolding evs by (simp add: observe_append quiet split: sum.splits)
  have 6: "logged evs
           = (case fst capture of
                Inl e \<Rightarrow> [''Exception occured while updating image property'']
              | Inr _ \<Rightarrow> [])
           @ (case fst res of
                Inl e \<Rightarrow> [''Exception occured while updating resolution property'']
              | Inr _ \<Rightarrow> [])
           @ (case fst fr of
                Inl e \<Rightarrow> [''Exception occured while updating framerate property'']
              | Inr _ \<Rightarrow> [])
           @ (case fst ex of
                Inl e \<Rightarrow> [''Exception occured while updating exposure_mode property'']
              | Inr _ \<Rightarrow> [])"
    unfolding evs by (simp add: observe_append quiet split: sum.splits)
  from camera_loop_body_result [of cam lib st] 1 2 3 4 5 6 show ?thesis
    by blast
qed

text \<open>
  The cached framerate is not changed by an iteration, so when the interval is computed
  and the sleep accepts it, every iteration completes and the loop goes on.
\<close>

lemma camera_loop_body_framerate:
  "framerate (snd (camera_loop_body cam lib st)) = framerate st"
  by (simp add: camera_loop_body_def Let_def update_framerate_frame time_sleep_def emit_def
        split: sum.splits option.splits)

lemma camera_loop_body_grows:
  "trace (snd (camera_loop_body cam lib st))
     = trace st @ events_since st (snd (camera_loop_body cam lib st))"
  unfolding events_since_def camera_loop_body_trace four_steps_trace
  by simp

lemma camera_loop_body_extends:
  "\<exists>evs. trace (snd (camera_loop_body cam lib st)) = trace st @ evs
     \<and> hw_calls evs = [Capture, Read Resolution, Read Framerate, Read ExposureMode]"
  using camera_loop_body_grows [of cam lib st] camera_loop_body_events [of cam lib st]
  by blast

lemma camera_loop_completes:
  assumes "wait_interval lib (framerate st) = Inr w" and "sleep_raises w = None"
  shows "fst (camera_loop cam lib n st) = Inr ()
     \<and> (\<exists>evs. trace (snd (camera_loop cam lib n st)) = trace st @ evs
          \<and> hw_calls evs
              = concat (replicate n [Capture, Read Resolution, Read Framerate, Read ExposureMode]))"
  using assms
proof (induction n arbitrary: st)
  case 0
  show ?case by simp
next
  case (Suc n)
  obtain r st' where body: "camera_loop_body cam lib st = (r, st')"
    by (cases "camera_loop_body cam lib st")
  from Suc.prems camera_loop_body_result [of cam lib st] body have r: "r = Inr ()"
    by simp
  from camera_loop_body_framerate [of cam lib st] body have "framerate st' = framerate st"
    by simp
  with Suc.prems have interval: "wait_interval lib (framerate st') = Inr w"
    by simp
  from Suc.IH [OF interval Suc.prems(2)]
  obtain evs' where ok: "fst (camera_loop cam lib n st') = Inr ()"
    and t': "trace (snd (camera_loop cam lib n st')) = trace st' @ evs'"
    and h': "hw_calls evs'
      = concat (replicate n [Capture, Read Resolution, Read Framerate, Read ExposureMode])"
    by blast
  from camera_loop_body_extends [of cam lib st] body
  obtain evs where t: "trace st' = trace st @ evs"
    and h: "hw_calls evs = [Capture, Read Resolution, Read Framerate, Read ExposureMode]"
    by auto
  have "trace (snd (camera_loop cam lib (Suc n) st)) = trace st @ (evs @ evs')"
    using body r t t' by simp
  moreover have "hw_calls (evs @ evs')
      = concat (replicate (Suc n) [Capture, Read Resolution, Read Framerate, Read ExposureMode])"
    using h h' by (simp add: observe_append)
  moreover have "fst (camera_loop cam lib (Suc n) st) = Inr ()"
    using body r ok by simp
  ultimately show ?case by blast
qed

text \<open>A cell that no callback addresses keeps its value.\<close>

lemma notify_other_cell:
  "c \<noteq> cell \<Longrightarrow> notify_of_external_update c v vals cell = vals cell"
  by (simp add: notify_of_external_update_def)

lemma run_callbacks_untouched:
  "callbacks_for cell evs = [] \<Longrightarrow> run_callbacks evs vals cell = vals cell"
proof (induction evs arbitrary: vals)
  case Nil
  show ?case by simp
next
  case (Cons ev evs)
  show ?case
  proof (cases ev)
    case (AddCallback c v)
    with Cons.prems have "c \<noteq> cell" and "callbacks_for cell evs = []"
      by (auto split: if_splits)
    with Cons.IH [of "notify_of_external_update c v vals"] AddCallback show ?thesis
      by (simp add: notify_other_cell)
  qed (use Cons in simp_all)
qed

text \<open>
  Claim C6. Whatever the driver does, an exception raised by the capture or by the
  read of the resolution, the framerate or the exposure mode never leaves the
  iteration: the iteration raises exactly what the computation of the sleep interval or
  the sleep itself raises, and returns normally when neither does. All four driver
  calls are made in every iteration, in order. For a call that raised, no update of its
  cell is handed to the I/O loop, the failure is logged, and the cell keeps the value
  it had. Whenever the interval is computed and is a length that \<open>time.sleep\<close>
  accepts, the loop completes any number of iterations, four driver calls each.
\<close>

theorem camera_loop_contains_failures:
  fixes cam :: "'c picamera" and lib :: pylib and st :: "('c, 'b) thing"
  defines "capture \<equiv> cam_capture cam (use_video_port st) (camera st)"
  defines "res \<equiv> cam_resolution cam (snd capture)"
  defines "fr \<equiv> cam_framerate cam (snd res)"
  defines "ex \<equiv> cam_exposure_mode cam (snd fr)"
  defines "evs \<equiv> events_since st (snd (camera_loop_body cam lib st))"
  shows "fst (camera_loop_body cam lib st)
           = (case wait_interval lib (framerate st) of
                Inl e \<Rightarrow> Inl e
              | Inr w \<Rightarrow> (case sleep_raises w of Some e \<Rightarrow> Inl e | None \<Rightarrow> Inr ()))
     \<and> hw_calls evs = [Capture, Read Resolution, Read Framerate, Read ExposureMode]
     \<and> (\<forall>e. fst capture = Inl e \<longrightarrow>
           callbacks_for base64_still_image_value evs = []
           \<and> ''Exception occured while updating image property'' \<in> set (logged evs)
           \<and> (\<forall>vals. run_callbacks evs vals base64_still_image_value
                       = vals base64_still_image_value))
     \<and> (\<forall>e. fst res = Inl e \<longrightarrow>
           callbacks_for resolution_value evs = []
           \<and> ''Exception occured while updating resolution property'' \<in> set (logged evs)
           \<and> (\<forall>vals. run_callbacks evs vals resolution_value = vals resolution_value))
     \<and> (\<forall>e. fst fr = Inl e \<longrightarrow>
           callbacks_for framerate_value evs = []
           \<and> ''Exception occured while updating framerate property'' \<in> set (logged evs)
           \<and> (\<forall>vals. run_callbacks evs vals framerate_value = vals framerate_value))
     \<and> (\<forall>e. fst ex = Inl e \<longrightarrow>
           callbacks_for exposure_mode_value evs = []
           \<and> ''Exception occured while updating exposure_mode property'' \<in> set (logged evs)
           \<and> (\<forall>vals. run_callbacks evs vals exposure_mode_value = vals exposure_mode_value))
     \<and> (\<forall>w n. wait_interval lib (framerate st) = Inr w \<and> sleep_raises w = None \<longrightarrow>
           fst (camera_loop cam lib n st) = Inr ()
           \<and> hw_calls (events_since st (snd (camera_loop cam lib n st)))
               = concat (replicate n
                   [Capture, Read Resolution, Read Framerate, Read ExposureMode]))"
proof -
  note ev = camera_loop_body_events [of cam lib st, folded capture_def res_def fr_def ex_def evs_def]
  have 1: "\<forall>e. fst capture = Inl e \<longrightarrow>
           callbacks_for base64_still_image_value evs = []
           \<and> ''Exception occured while updating image property'' \<in> set (logged evs)
           \<and> (\<forall>vals. run_callbacks evs vals base64_still_image_value
                       = vals base64_still_image_value)"
    using ev by (auto simp: run_callbacks_untouched)
  have 2: "\<forall>e. fst res = Inl e \<longrightarrow>
           callbacks_for resolution_value evs = []
           \<and> ''Exception occured while updating resolution property'' \<in> set (logged evs)
           \<and> (\<forall>vals. run_callbacks evs vals resolution_value = vals resolution_value)"
    using ev by (auto simp: run_callbacks_untouched)
  have 3: "\<forall>e. fst fr = Inl e \<longrightarrow>
           callbacks_for framerate_value evs = []
           \<and> ''Exception occured while updating framerate property'' \<in> set (logged evs)
           \<and> (\<forall>vals. run_callbacks evs vals framerate_value = vals framerate_value)"
    using ev by (auto simp: run_callbacks_untouched)
  have 4: "\<forall>e. fst ex = Inl e \<longrightarrow>
           callbacks_for exposure_mode_value evs = []
           \<and> ''Exception occured while updating exposure_mode property'' \<in> set (logged evs)
           \<and> (\<forall>vals. run_callbacks evs vals exposure_mode_value = vals exposure_mode_value)"
    using ev by (auto simp: run_callbacks_untouched)
  have 5: "\<forall>w n. wait_interval lib (framerate st) = Inr w \<and> sleep_raises w = None \<longrightarrow>
           fst (camera_loop cam lib n st) = Inr ()
           \<and> hw_calls (events_since st (snd (camera_loop cam lib n st)))
               = concat (replicate n
                   [Capture, Read Resolution, Read Framerate, Read ExposureMode])"
  proof (intro allI impI)
    fix w n
    assume "wait_interval lib (framerate st) = Inr w \<and> sleep_raises w = None"
    then have "wait_interval lib (framerate st) = Inr w" and "sleep_raises w = None"
      by simp_all
    from camera_loop_completes [OF this, of cam n]
    show "fst (camera_loop cam lib n st) = Inr ()
           \<and> hw_calls (events_since st (snd (camera_loop cam lib n st)))
               = concat (replicate n
                   [Capture, Read Resolution, Read Framerate, Read ExposureMode])"
      by (auto simp: events_since_def)
  qed
  from ev 1 2 3 4 5 show ?thesis
    by blast
qed

text \<open>
  On the camera on which every call raises: the capture fails, the iteration returns
  normally, pushes no image and logs the failure, and three iterations complete with
  twelve driver calls.
\<close>

theorem camera_loop_contains_failures_witness:
  "wait_interval fake_pylib (framerate broken_thing) = Inr (PFloat 1)
   \<and> sleep_raises (PFloat 1) = None
   \<and> fst (cam_capture fake_picamera (use_video_port broken_thing) (camera broken_thing))
       = Inl PiCameraError
   \<and> fst (camera_loop_body fake_picamera fake_pylib broken_thing) = Inr ()
   \<and> callbacks_for base64_still_image_value
        (events_since broken_thing (snd (camera_loop_body fake_picamera fake_pylib broken_thing)))
       = []
   \<and> ''Exception occured while updating image property''
       \<in> set (logged (events_since broken_thing
                  (snd (camera_loop_body fake_picamera fake_pylib broken_thing))))
   \<and> fst (camera_loop fake_picamera fake_pylib 3 broken_thing) = Inr ()
   \<and> hw_calls (events_since broken_thing (snd (camera_loop fake_picamera fake_pylib 3 broken_thing)))
       = [Capture, Read Resolution, Read Framerate, Read ExposureMode,
          Capture, Read Resolution, Read Framerate, Read ExposureMode,
          Capture, Read Resolution, Read Framerate, Read ExposureMode]"
proof -
  have wait: "wait_interval fake_pylib (framerate broken_thing) = Inr (PFloat 1)"
    by (simp add: wait_interval_def py_float_def to_float_def one_over_def float_overflow_def
          broken_thing_def fake_thing_def)
  have sleep: "sleep_raises (PFloat 1) = None"
    by (simp add: sleep_raises_def py_number_def sleep_limit_def)
  have capture:
    "fst (cam_capture fake_picamera (use_video_port broken_thing) (camera broken_thing))
       = Inl PiCameraError"
    by (simp add: broken_thing_def fake_camera_defs)
  have three: "concat (replicate 3 [Capture, Read Resolution, Read Framerate, Read ExposureMode])
      = [Capture, Read Resolution, Read Framerate, Read ExposureMode,
         Capture, Read Resolution, Read Framerate, Read ExposureMode,
         Capture, Read Resolution, Read Framerate, Read ExposureMode]"
    by (simp add: numeral_3_eq_3)
  note inst = camera_loop_contains_failures [of fake_picamera fake_pylib broken_thing]
  from inst wait sleep
  have a: "fst (camera_loop_body fake_picamera fake_pylib broken_thing) = Inr ()"
    by simp
  from inst capture have b: "callbacks_for base64_still_image_value
        (events_since broken_thing (snd (camera_loop_body fake_picamera fake_pylib broken_thing)))
       = []
     \<and> ''Exception occured while updating image property''
       \<in> set (logged (events_since broken_thing
                  (snd (camera_loop_body fake_picamera fake_pylib broken_thing))))"
    by blast
  from inst wait sleep
  have c: "fst (camera_loop fake_picamera fake_pylib 3 broken_thing) = Inr ()
     \<and> hw_calls (events_since broken_thing (snd (camera_loop fake_picamera fake_pylib 3 broken_thing)))
       = concat (replicate 3 [Capture, Read Resolution, Read Framerate, Read ExposureMode])"
    by blast
  from wait sleep capture a b c three show ?thesis
    by simp
qed

section \<open>The order of events in the camera setup\<close>

text \<open>Results and states of the building blocks.\<close>

lemma hw_call_fst: "fst (hw_call op f st) = fst (f (camera st))"
  by (simp add: hw_call_def split: prod.splits)

lemma hw_call_snd:
  "snd (hw_call op f st) = st\<lparr>camera := snd (f (camera st)), trace := trace st @ [Hw op]\<rparr>"
  by (simp add: hw_call_def emit_def split: prod.splits)

lemma with_camera_lock_fst: "fst (with_camera_lock body st) = fst (body (emit Acquire st))"
  by (simp add: with_camera_lock_def split: prod.splits)

lemma with_camera_lock_snd:
  "snd (with_camera_lock body st) = emit Release (snd (body (emit Acquire st)))"
  by (simp add: with_camera_lock_def split: prod.splits)

lemma and_then_Inr_iff:
  "fst (and_then f g st) = Inr r
     \<longleftrightarrow> (\<exists>x. fst (f st) = Inr x \<and> fst (g x (snd (f st))) = Inr r)"
  by (cases "f st") (auto simp: and_then_def split: sum.splits)

lemma and_then_ok: "fst (f st) = Inr x \<Longrightarrow> and_then f g st = g x (snd (f st))"
  by (cases "f st") (simp add: and_then_def)

text \<open>A setup that returns normally has made every call, in the order of the source.\<close>

lemma camera_setup_success_trace:
  assumes "fst (camera_setup cam st) = Inr ()"
  shows "trace (snd (camera_setup cam st)) = trace st @
                [Hw Open,
                 Acquire,
                 Hw (Assign Resolution (resolution st)),
                 Hw (Assign Rotation (rotation st)),
                 Hw (Assign Iso (iso st)),
                 Hw (Assign Framerate (PFloat 30.0)),
                 Hw (Assign ShutterSpeed (shutter_speed st)),
                 Hw (Assign SensorMode (sensor_mode st)),
                 Hw (Assign ExposureMode (exposure_mode st)),
                 Hw StartPreview,
                 Release,
                 Sleep (PInt 3),
                 Acquire,
                 Hw (Assign Framerate (framerate st)),
                 Release,
                 StartThread ''camera_loop'']"
  using assms
  by (auto simp: camera_setup_def and_then_Inr_iff and_then_ok assign_def hw_call_fst hw_call_snd
        with_camera_lock_fst with_camera_lock_snd time_sleep_3 emit_def)

text \<open>No step before the last one starts a thread.\<close>

lemma quiet_hw_call: "quiet (hw_call op f)"
  by (simp add: quiet_def hw_call_snd)

lemma quiet_assign: "quiet (assign cam k v)"
  by (simp add: assign_def quiet_hw_call)

lemma quiet_time_sleep: "quiet (time_sleep v)"
  by (simp add: quiet_def time_sleep_def emit_def split: option.splits)

lemma quiet_and_then:
  assumes f: "quiet f" and g: "\<And>x. quiet (g x)"
  shows "quiet (and_then f g)"
  unfolding quiet_def
proof
  fix st
  from f obtain evs where e: "trace (snd (f st)) = trace st @ evs"
    and n: "\<forall>name. StartThread name \<notin> set evs"
    unfolding quiet_def by blast
  show "\<exists>evs. trace (snd (and_then f g st)) = trace st @ evs
      \<and> (\<forall>name. StartThread name \<notin> set evs)"
  proof (cases "fst (f st)")
    case (Inl err)
    then have "and_then f g st = (Inl err, snd (f st))"
      by (cases "f st") (simp add: and_then_def)
    with e n show ?thesis by auto
  next
    case (Inr x)
    from g [of x] obtain evs' where e': "trace (snd (g x (snd (f st)))) = trace (snd (f st)) @ evs'"
      and n': "\<forall>name. StartThread name \<notin> set evs'"
      unfolding quiet_def by blast
    from Inr have "and_then f g st = g x (snd (f st))"
      by (rule and_then_ok)
    with e e' have "trace (snd (and_then f g st)) = trace st @ (evs @ evs')"
      by simp
    moreover from n n' have "\<forall>name. StartThread name \<notin> set (evs @ evs')"
      by simp
    ultimately show ?thesis by blast
  qed
qed

lemma quiet_with_camera_lock:
  assumes "\<And>s. quiet (body s)"
  shows "quiet (with_camera_lock (\<lambda>st. body st st))"
  unfolding quiet_def
proof
  fix st
  from assms [of "emit Acquire st"]
  obtain evs where e: "trace (snd (body (emit Acquire st) (emit Acquire st)))
      = trace (emit Acquire st) @ evs"
    and n: "\<forall>name. StartThread name \<notin> set evs"
    unfolding quiet_def by blast
  have "trace (snd (with_camera_lock (\<lambda>st. body st st) st)) = trace st @ (Acquire # evs @ [Release])"
    using e by (simp add: with_camera_lock_snd emit_def)
  moreover from n have "\<forall>name. StartThread name \<notin> set (Acquire # evs @ [Release])"
    by simp
  ultimately show "\<exists>evs. trace (snd (with_camera_lock (\<lambda>st. body st st) st)) = trace st @ evs
      \<and> (\<forall>name. StartThread name \<notin> set evs)"
    by blast
qed

lemma starts_last_and_then:
  assumes f: "quiet f" and g: "\<And>x. starts_last (g x)"
  shows "starts_last (and_then f g)"
  unfolding starts_last_def
proof
  fix st
  from f obtain evs where e: "trace (snd (f st)) = trace st @ evs"
    and n: "\<forall>name. StartThread name \<notin> set evs"
    unfolding quiet_def by blast
  show "\<exists>evs. trace (snd (and_then f g st)) = trace st @ evs
      \<and> (StartThread ''camera_loop'' \<in> set evs \<longrightarrow> fst (and_then f g st) = Inr ())"
  proof (cases "fst (f st)")
    case (Inl err)
    then have "and_then f g st = (Inl err, snd (f st))"
      by (cases "f st") (simp add: and_then_def)
    with e n show ?thesis by auto
  next
    case (Inr x)
    from g [of x] obtain evs' where e': "trace (snd (g x (snd (f st)))) = trace (snd (f st)) @ evs'"
      and n': "StartThread ''camera_loop'' \<in> set evs' \<longrightarrow> fst (g x (snd (f st))) = Inr ()"
      unfolding starts_last_def by blast
    from Inr have eq: "and_then f g st = g x (snd (f st))"
      by (rule and_then_ok)
    with e e' have "trace (snd (and_then f g st)) = trace st @ (evs @ evs')"
      by simp
    moreover from n n' eq
    have "StartThread ''camera_loop'' \<in> set (evs @ evs') \<longrightarrow> fst (and_then f g st) = Inr ()"
      by simp
    ultimately show ?thesis by blast
  qed
qed

lemma starts_last_camera_setup: "starts_last (camera_setup cam)"
  unfolding camera_setup_def
  by (intro starts_last_and_then quiet_hw_call quiet_time_sleep quiet_with_camera_lock
        quiet_and_then quiet_assign)
     (simp add: starts_last_def emit_def)

text \<open>
  Claim C8. Whatever the driver does, \<open>camera_setup\<close> starts the camera thread
  only when it returns normally, and then its events are exactly these, in this order:
  the camera is opened; under the lock the settings are assigned, the framerate among
  them as the fixed \<open>30.0\<close>, and the preview is started; the lock is released;
  \<open>time.sleep(3)\<close>; under the lock the framerate is assigned the configured value;
  the lock is released; the thread running \<open>camera_loop\<close> is started. So the
  thread, and with it every capture of the loop, starts after the warm-up and after
  the framerate was reset.
\<close>

theorem camera_setup_warms_up_first:
  fixes cam :: "'c picamera" and st :: "('c, 'b) thing"
  defines "evs \<equiv> events_since st (snd (camera_setup cam st))"
  shows "(StartThread ''camera_loop'' \<in> set evs \<longleftrightarrow> fst (camera_setup cam st) = Inr ())
     \<and> (StartThread ''camera_loop'' \<in> set evs \<longrightarrow>
          evs = [Hw Open,
                 Acquire,
                 Hw (Assign Resolution (resolution st)),
                 Hw (Assign Rotation (rotation st)),
                 Hw (Assign Iso (iso st)),
                 Hw (Assign Framerate (PFloat 30.0)),
                 Hw (Assign ShutterSpeed (shutter_speed st)),
                 Hw (Assign SensorMode (sensor_mode st)),
                 Hw (Assign ExposureMode (exposure_mode st)),
                 Hw StartPreview,
                 Release,
                 Sleep (PInt 3),
                 Acquire,
                 Hw (Assign Framerate (framerate st)),
                 Release,
                 StartThread ''camera_loop''])"
proof -
  from starts_last_camera_setup [of cam]
  obtain evs' where e: "trace (snd (camera_setup cam st)) = trace st @ evs'"
    and l: "StartThread ''camera_loop'' \<in> set evs' \<longrightarrow> fst (camera_setup cam st) = Inr ()"
    unfolding starts_last_def by blast
  from e have evs: "evs = evs'"
    by (simp add: evs_def events_since_def)
  have full: "fst (camera_setup cam st) = Inr () \<Longrightarrow>
      evs = [Hw Open,
                 Acquire,
                 Hw (Assign Resolution (resolution st)),
                 Hw (Assign Rotation (rotation st)),
                 Hw (Assign Iso (iso st)),
                 Hw (Assign Framerate (PFloat 30.0)),
                 Hw (Assign ShutterSpeed (shutter_speed st)),
                 Hw (Assign SensorMode (sensor_mode st)),
                 Hw (Assign ExposureMode (exposure_mode st)),
                 Hw StartPreview,
                 Release,
                 Sleep (PInt 3),
                 Acquire,
                 Hw (Assign Framerate (framerate st)),
                 Release,
                 StartThread ''camera_loop'']"
    using camera_setup_success_trace [of cam st]
    by (simp add: evs_def events_since_def)
  from l evs full show ?thesis
    by auto
qed

text \<open>On the test camera the setup returns normally with these sixteen events.\<close>

theorem camera_setup_warms_up_first_witness:
  "fst (camera_setup fake_picamera fake_thing) = Inr ()
   \<and> events_since fake_thing (snd (camera_setup fake_picamera fake_thing))
       = [Hw Open,
          Acquire,
          Hw (Assign Resolution (PStr ''640x480'')),
          Hw (Assign Rotation (PInt 0)),
          Hw (Assign Iso (PInt 0)),
          Hw (Assign Framerate (PFloat 30.0)),
          Hw (Assign ShutterSpeed (PInt 0)),
          Hw (Assign SensorMode (PInt 0)),
          Hw (Assign ExposureMode (PStr ''auto'')),
          Hw StartPreview,
          Release,
          Sleep (PInt 3),
          Acquire,
          Hw (Assign Framerate (PFloat 1.0)),
          Release,
          StartThread ''camera_loop'']"
proof -
  have ok: "fst (camera_setup fake_picamera fake_thing) = Inr ()"
    by (simp add: camera_setup_def and_then_def assign_def with_camera_lock_def hw_call_def
          emit_def time_sleep_3 fake_camera_defs)
  from camera_setup_warms_up_first [of fake_thing fake_picamera] ok show ?thesis
    by (simp add: fake_thing_def)
qed

section \<open>The properties and their choices\<close>

lemma webthing_setup_names:
  "map fst (webthing_setup EXPOSURE_MODES st)
     = [''resolution'', ''framerate'', ''stillImage'', ''exposureMode'']
       @ (if si7021_enabled st then [''temperature'', ''humidity''] else [])"
  by (simp add: webthing_setup_def add_property_def Let_def)

lemma webthing_setup_choices:
  "map_option md_choices (map_of (webthing_setup EXPOSURE_MODES st) ''resolution'')
     = Some (Some [''320x240'', ''640x480'', ''800x600'', ''1024x768'', ''1296x972'',
                   ''1640x1232'', ''3280x2464''])"
  "map_option md_choices (map_of (webthing_setup EXPOSURE_MODES st) ''framerate'')
     = Some (Some [''0.0'', ''0.1'', ''0.5'', ''1.0'', ''2.0'', ''3.0'', ''4.0'', ''5.0'',
                   ''6.0'', ''7.0'', ''8.0'', ''9.0'', ''10.0'', ''15.0'', ''20.0'', ''30.0''])"
  "map_option md_choices (map_of (webthing_setup EXPOSURE_MODES st) ''exposureMode'')
     = Some (Some (sorted_exposure_modes EXPOSURE_MODES))"
  by (simp_all add: webthing_setup_def add_property_def Let_def)

lemma sorted_exposure_modes_props:
  "set (sorted_exposure_modes modes) = fst ` set modes"
  "length (sorted_exposure_modes modes) = length modes"
  "sorted (map (\<lambda>k. the (map_of modes k)) (sorted_exposure_modes modes))"
  "distinct (map fst modes) \<Longrightarrow> distinct (sorted_exposure_modes modes)"
  by (simp_all add: sorted_exposure_modes_def)

text \<open>
  Claim C9. In the device that \<open>webthing_setup\<close> builds, the choices of the
  property \<open>resolution\<close> are the seven listed resolutions and the choices of
  \<open>framerate\<close> are the sixteen listed framerates (both as strings, in the listed
  order); the choices of \<open>exposureMode\<close> are all the names of the driver's
  \<open>EXPOSURE_MODES\<close>, each once, in ascending order of their index; and the
  properties \<open>temperature\<close> and \<open>humidity\<close> are present if and only if
  \<open>si7021_enabled\<close> is set.
\<close>

theorem device_choice_sets:
  fixes EXPOSURE_MODES :: "(string \<times> int) list" and st :: "('c, 'b) thing"
  defines "props \<equiv> webthing_setup EXPOSURE_MODES st"
  shows "(\<exists>p. map_of props ''resolution'' = Some p
            \<and> md_choices p = Some [''320x240'', ''640x480'', ''800x600'', ''1024x768'',
                                   ''1296x972'', ''1640x1232'', ''3280x2464''])
     \<and> (\<exists>p. map_of props ''framerate'' = Some p
            \<and> md_choices p = Some [''0.0'', ''0.1'', ''0.5'', ''1.0'', ''2.0'', ''3.0'',
                                   ''4.0'', ''5.0'', ''6.0'', ''7.0'', ''8.0'', ''9.0'',
                                   ''10.0'', ''15.0'', ''20.0'', ''30.0''])
     \<and> (\<exists>p cs. map_of props ''exposureMode'' = Some p
            \<and> md_choices p = Some cs
            \<and> set cs = fst ` set EXPOSURE_MODES
            \<and> length cs = length EXPOSURE_MODES
            \<and> sorted (map (\<lambda>k. the (map_of EXPOSURE_MODES k)) cs))
     \<and> (''temperature'' \<in> set (map fst props) \<longleftrightarrow> si7021_enabled st)
     \<and> (''humidity'' \<in> set (map fst props) \<longleftrightarrow> si7021_enabled st)"
proof -
  from webthing_setup_choices(1) [of EXPOSURE_MODES st]
  have 1: "\<exists>p. map_of props ''resolution'' = Some p
            \<and> md_choices p = Some [''320x240'', ''640x480'', ''800x600'', ''1024x768'',
                                   ''1296x972'', ''1640x1232'', ''3280x2464'']"
    unfolding props_def by (cases "map_of (webthing_setup EXPOSURE_MODES st) ''resolution''") simp_all
  from webthing_setup_choices(2) [of EXPOSURE_MODES st]
  have 2: "\<exists>p. map_of props ''framerate'' = Some p
            \<and> md_choices p = Some [''0.0'', ''0.1'', ''0.5'', ''1.0'', ''2.0'', ''3.0'',
                                   ''4.0'', ''5.0'', ''6.0'', ''7.0'', ''8.0'', ''9.0'',
                                   ''10.0'', ''15.0'', ''20.0'', ''30.0'']"
    unfolding props_def by (cases "map_of (webthing_setup EXPOSURE_MODES st) ''framerate''") simp_all
  from webthing_setup_choices(3) [of EXPOSURE_MODES st]
  have "\<exists>p. map_of props ''exposureMode'' = Some p
            \<and> md_choices p = Some (sorted_exposure_modes EXPOSURE_MODES)"
    unfolding props_def
    by (cases "map_of (webthing_setup EXPOSURE_MODES st) ''exposureMode''") simp_all
  with sorted_exposure_modes_props(1-3) [of EXPOSURE_MODES]
  have 3: "\<exists>p cs. map_of props ''exposureMode'' = Some p
            \<and> md_choices p = Some cs
            \<and> set cs = fst ` set EXPOSURE_MODES
            \<and> length cs = length EXPOSURE_MODES
            \<and> sorted (map (\<lambda>k. the (map_of EXPOSURE_MODES k)) cs)"
    by blast
  have 4: "''temperature'' \<in> set (map fst props) \<longleftrightarrow> si7021_enabled st"
    and 5: "''humidity'' \<in> set (map fst props) \<longleftrightarrow> si7021_enabled st"
    unfolding props_def webthing_setup_names by simp_all
  from 1 2 3 4 5 show ?thesis
    by blast
qed

text \<open>
  With three exposure modes given out of order the choices come out by index; the
  temperature is present with the sensor enabled, the humidity absent with it disabled.
\<close>

theorem device_choice_sets_witness:
  "(\<exists>p. map_of (webthing_setup [(''off'', 0), (''night'', 2), (''auto'', 1)] fake_thing)
           ''exposureMode'' = Some p
        \<and> md_choices p = Some [''off'', ''auto'', ''night''])
   \<and> ''temperature''
       \<in> set (map fst (webthing_setup [(''off'', 0), (''night'', 2), (''auto'', 1)] fake_thing))
   \<and> ''humidity''
       \<notin> set (map fst (webthing_setup [(''off'', 0), (''night'', 2), (''auto'', 1)]
                          (fake_thing\<lparr>si7021_enabled := False\<rparr>)))"
proof -
  have on: "si7021_enabled fake_thing"
    by (simp add: fake_thing_def)
  have off: "\<not> si7021_enabled (fake_thing\<lparr>si7021_enabled := False\<rparr>)"
    by simp
  have ex: "\<exists>p. map_of (webthing_setup [(''off'', 0), (''night'', 2), (''auto'', 1)] fake_thing)
           ''exposureMode'' = Some p
        \<and> md_choices p = Some [''off'', ''auto'', ''night'']"
    by (simp add: webthing_setup_def add_property_def Let_def sorted_exposure_modes_def)
  from device_choice_sets [of "[(''off'', 0), (''night'', 2), (''auto'', 1)]" fake_thing] on
  have t: "''temperature''
       \<in> set (map fst (webthing_setup [(''off'', 0), (''night'', 2), (''auto'', 1)] fake_thing))"
    by blast
  from device_choice_sets [of "[(''off'', 0), (''night'', 2), (''auto'', 1)]"
      "fake_thing\<lparr>si7021_enabled := False\<rparr>"] off
  have h: "''humidity''
       \<notin> set (map fst (webthing_setup [(''off'', 0), (''night'', 2), (''auto'', 1)]
                          (fake_thing\<lparr>si7021_enabled := False\<rparr>)))"
    by blast
  from ex t h show ?thesis
    by blast
qed

section \<open>The framerate is read back as a string\<close>

text \<open>A single callback for a cell, with a value that differs, becomes its value.\<close>

lemma run_callbacks_single:
  assumes "callbacks_for cell evs = [v]" and "v \<noteq> PNone" and "\<not> py_eq v (vals cell)"
  shows "run_callbacks evs vals cell = v"
  using assms
proof (induction evs arbitrary: vals)
  case Nil
  then show ?case by simp
next
  case (Cons ev evs)
  show ?case
  proof (cases ev)
    case (AddCallback c u)
    show ?thesis
    proof (cases "c = cell")
      case True
      with Cons.prems AddCallback have u: "u = v" and rest: "callbacks_for cell evs = []"
        by simp_all
      from True u Cons.prems have "notify_of_external_update c u vals cell = v"
        by (simp add: notify_of_external_update_def)
      with rest AddCallback show ?thesis
        by (simp add: run_callbacks_untouched)
    next
      case False
      with Cons.prems AddCallback have rest: "callbacks_for cell evs = [v]"
        by simp
      from False Cons.prems
      have differs: "\<not> py_eq v (notify_of_external_update c u vals cell)"
        by (simp add: notify_other_cell)
      from Cons.IH [of "notify_of_external_update c u vals", OF rest Cons.prems(2) differs] AddCallback
      show ?thesis
        by simp
    qed
  qed (use Cons in simp_all)
qed

lemma py_eq_str_number: "py_number v = Some y \<Longrightarrow> \<not> py_eq (PStr s) v"
  by (cases v) (simp_all add: py_eq_def py_number_def)

lemma fake_float_repr_1: "fake_float_repr 1 = ''1.0''"
  by (simp add: fake_float_repr_def str_int_def str_nat.simps digit_char_def)

text \<open>
  Claim C10. Whatever \<open>get_framerate\<close> returns is the string that formats the
  driver's framerate as a float, never a number. So an iteration of the camera loop
  whose framerate read succeeds hands that string to the framerate cell, whose value
  is then a string although it started as the numeric configured value.
  \<open>set_framerate\<close> caches the written value as it is. Writing the number \<open>1.0\<close>
  to a camera that accepts and reports it reads back as the string \<open>1.0\<close>, given
  that the interpreter formats the float \<open>1.0\<close> so.
\<close>

theorem framerate_reads_back_as_string:
  fixes cam :: "'c picamera" and lib :: pylib and st :: "('c, 'b) thing"
  defines "evs \<equiv> events_since st (snd (camera_loop_body cam lib st))"
  defines "fr \<equiv> cam_framerate cam
      (snd (cam_resolution cam (snd (cam_capture cam (use_video_port st) (camera st)))))"
  shows "(\<forall>v. fst (get_framerate cam lib st) = Inr v \<longrightarrow>
            (\<exists>x. fst (cam_framerate cam (camera st)) = Inr x \<and> v = PStr (float_repr lib x)))
     \<and> (\<forall>x y. fst fr = Inr x \<and> py_number (framerate st) = Some y \<longrightarrow>
            initial_values st framerate_value = framerate st
            \<and> callbacks_for framerate_value evs = [PStr (float_repr lib x)]
            \<and> run_callbacks evs (initial_values st) framerate_value = PStr (float_repr lib x))
     \<and> (\<forall>v u. fst (cam_assign cam Framerate v (camera st)) = Inr u \<longrightarrow>
            framerate (snd (set_framerate cam v st)) = v)
     \<and> (\<forall>c' c''. cam_assign cam Framerate (PFloat 1.0) (camera st) = (Inr (), c')
            \<and> cam_framerate cam c' = (Inr 1.0, c'') \<and> float_repr lib 1.0 = ''1.0'' \<longrightarrow>
            framerate (snd (set_framerate cam (PFloat 1.0) st)) = PFloat 1.0
            \<and> fst (get_framerate cam lib (snd (set_framerate cam (PFloat 1.0) st)))
                = Inr (PStr ''1.0''))"
proof -
  have 1: "\<forall>v. fst (get_framerate cam lib st) = Inr v \<longrightarrow>
            (\<exists>x. fst (cam_framerate cam (camera st)) = Inr x \<and> v = PStr (float_repr lib x))"
    by (auto simp: facade_defs split: prod.splits sum.splits)
  have 2: "\<forall>x y. fst fr = Inr x \<and> py_number (framerate st) = Some y \<longrightarrow>
            initial_values st framerate_value = framerate st
            \<and> callbacks_for framerate_value evs = [PStr (float_repr lib x)]
            \<and> run_callbacks evs (initial_values st) framerate_value = PStr (float_repr lib x)"
  proof (intro allI impI)
    fix x y
    assume a: "fst fr = Inr x \<and> py_number (framerate st) = Some y"
    have init: "initial_values st framerate_value = framerate st"
      by (simp add: initial_values_def)
    from a camera_loop_body_events [of cam lib st]
    have cb: "callbacks_for framerate_value evs = [PStr (float_repr lib x)]"
      unfolding evs_def fr_def by simp
    from a init have "\<not> py_eq (PStr (float_repr lib x)) (initial_values st framerate_value)"
      by (simp add: py_eq_str_number)
    with cb have "run_callbacks evs (initial_values st) framerate_value = PStr (float_repr lib x)"
      by (intro run_callbacks_single) simp_all
    with init cb show "initial_values st framerate_value = framerate st
            \<and> callbacks_for framerate_value evs = [PStr (float_repr lib x)]
            \<and> run_callbacks evs (initial_values st) framerate_value = PStr (float_repr lib x)"
      by simp
  qed
  have 3: "\<forall>v u. fst (cam_assign cam Framerate v (camera st)) = Inr u \<longrightarrow>
            framerate (snd (set_framerate cam v st)) = v"
    by (simp add: facade_defs split: prod.splits sum.splits)
  have 4: "\<forall>c' c''. cam_assign cam Framerate (PFloat 1.0) (camera st) = (Inr (), c')
            \<and> cam_framerate cam c' = (Inr 1.0, c'') \<and> float_repr lib 1.0 = ''1.0'' \<longrightarrow>
            framerate (snd (set_framerate cam (PFloat 1.0) st)) = PFloat 1.0
            \<and> fst (get_framerate cam lib (snd (set_framerate cam (PFloat 1.0) st)))
                = Inr (PStr ''1.0'')"
    by (simp add: facade_defs)
  from 1 2 3 4 show ?thesis
    by blast
qed

text \<open>
  On the test camera: the number \<open>1.0\<close> is cached as written and read back as the
  string \<open>1.0\<close>; the cell starts as the number \<open>1.0\<close> and after one iteration
  holds the string \<open>30.0\<close>, the camera's framerate.
\<close>

lemma fake_float_repr_30: "fake_float_repr 30 = ''30.0''"
  by (simp add: fake_float_repr_def str_int_def str_nat.simps digit_char_def)

theorem framerate_reads_back_as_string_witness:
  "framerate (snd (set_framerate fake_picamera (PFloat 1.0) fake_thing)) = PFloat 1.0
   \<and> fst (get_framerate fake_picamera fake_pylib
            (snd (set_framerate fake_picamera (PFloat 1.0) fake_thing)))
       = Inr (PStr ''1.0'')
   \<and> initial_values fake_thing framerate_value = PFloat 1.0
   \<and> run_callbacks
        (events_since fake_thing (snd (camera_loop_body fake_picamera fake_pylib fake_thing)))
        (initial_values fake_thing) framerate_value
       = PStr ''30.0''"
proof -
  note inst = framerate_reads_back_as_string
    [where cam = fake_picamera and lib = fake_pylib and st = fake_thing]
  have accepted: "cam_assign fake_picamera Framerate (PFloat 1.0) (camera fake_thing)
      = (Inr (), (camera fake_thing)\<lparr>fc_framerate := 1.0\<rparr>)"
    by (simp add: fake_camera_defs)
  have stored: "cam_framerate fake_picamera ((camera fake_thing)\<lparr>fc_framerate := 1.0\<rparr>)
      = (Inr 1.0, (camera fake_thing)\<lparr>fc_framerate := 1.0\<rparr>)"
    by (simp add: fake_camera_defs)
  have repr: "float_repr fake_pylib 1.0 = ''1.0''"
    by (simp add: fake_pylib_def fake_float_repr_1)
  from inst accepted stored repr
  have a: "framerate (snd (set_framerate fake_picamera (PFloat 1.0) fake_thing)) = PFloat 1.0
     \<and> fst (get_framerate fake_picamera fake_pylib
            (snd (set_framerate fake_picamera (PFloat 1.0) fake_thing)))
       = Inr (PStr ''1.0'')"
    by blast
  have read: "fst (cam_framerate fake_picamera
      (snd (cam_resolution fake_picamera
         (snd (cam_capture fake_picamera (use_video_port fake_thing) (camera fake_thing))))))
      = Inr 30"
    by (simp add: fake_camera_defs)
  have numeric: "py_number (framerate fake_thing) = Some 1.0"
    by (simp add: fake_thing_def py_number_def)
  from inst read numeric
  have b: "initial_values fake_thing framerate_value = framerate fake_thing
     \<and> run_callbacks
        (events_since fake_thing (snd (camera_loop_body fake_picamera fake_pylib fake_thing)))
        (initial_values fake_thing) framerate_value
       = PStr (float_repr fake_pylib 30)"
    by blast
  have "float_repr fake_pylib 30 = ''30.0''"
    by (simp add: fake_pylib_def fake_float_repr_30)
  moreover have "framerate fake_thing = PFloat 1.0"
    by (simp add: fake_thing_def)
  ultimately show ?thesis
    using a b by simp
qed

section \<open>Mutual exclusion of the camera calls\<close>

text \<open>
  Each of the seven operations takes the lock, makes its one driver call, logs if a
  setter's call raised, and releases the lock.
\<close>

lemma operation_events:
  "\<exists>logs. events_since st (run_operation cam lib op st)
     = Acquire # Hw (call_of op) # map LogException logs @ [Release]"
proof (cases op)
  case (SetResolution v)
  then show ?thesis
    by (cases "fst (cam_assign cam Resolution v (camera st))")
       (auto simp: run_operation_def call_of_def facade_defs events_since_def
          split: prod.splits intro: exI [of _ "[]"] exI [of _ "[''Failed to set resolution'']"])
next
  case (SetFramerate v)
  then show ?thesis
    by (cases "fst (cam_assign cam Framerate v (camera st))")
       (auto simp: run_operation_def call_of_def facade_defs events_since_def
          split: prod.splits intro: exI [of _ "[]"] exI [of _ "[''Failed to set framerate'']"])
next
  case (SetExposureMode v)
  then show ?thesis
    by (cases "fst (cam_assign cam ExposureMode v (camera st))")
       (auto simp: run_operation_def call_of_def facade_defs events_since_def
          split: prod.splits intro: exI [of _ "[]"] exI [of _ "[''Failed to set exposure mode'']"])
qed (auto simp: run_operation_def call_of_def facade_defs events_since_def
       split: prod.splits sum.splits intro: exI [of _ "[]"])

text \<open>So the events of a thread are in order, and it ends without the lock.\<close>

lemma held_after_append:
  "held_after h (xs @ ys) = (case held_after h xs of None \<Rightarrow> None | Some h' \<Rightarrow> held_after h' ys)"
  by (induction h xs rule: held_after.induct) simp_all

lemma held_after_logs: "held_after h (map LogException logs @ evs) = held_after h evs"
  by (induction logs) simp_all

lemma held_after_operation:
  "held_after False (events_since st (run_operation cam lib op st)) = Some False"
proof -
  from operation_events [of st cam lib op]
  obtain logs where "events_since st (run_operation cam lib op st)
     = Acquire # Hw (call_of op) # map LogException logs @ [Release]"
    by blast
  then show ?thesis
    by (simp add: held_after_logs)
qed

lemma held_after_action: "held_after False (action_events cam lib a) = Some False"
  by (cases a) (simp_all add: held_after_operation)

lemma held_after_thread: "held_after False (thread_events cam lib acts) = Some False"
  by (induction acts) (simp_all add: thread_events_def held_after_append held_after_action)

text \<open>The invariant holds at the start and every step keeps it.\<close>

lemma exclusive_from_snoc:
  "exclusive_from h (xs @ [x])
     = (case exclusive_from h xs of None \<Rightarrow> None | Some h' \<Rightarrow> exclusive_from h' [x])"
  by (induction h xs rule: exclusive_from.induct) simp_all


lemma sys_inv_start:
  assumes "\<And>t. held_after False (progs t) \<noteq> None"
  shows "sys_inv (start progs)"
  using assms by (simp add: sys_inv_def start_def)

lemma sys_inv_update:
  assumes "held_after (h' = Some t) rest \<noteq> None"
    and "\<And>u. u \<noteq> t \<Longrightarrow> held_after (h' = Some u) (pending s u) \<noteq> None"
    and "exclusive_from None (history s @ [(t, ev)]) = Some h'"
  shows "sys_inv (s\<lparr>pending := (pending s)(t := rest), holder := h',
                     history := history s @ [(t, ev)]\<rparr>)"
  using assms by (simp add: sys_inv_def)

lemma sys_inv_step:
  assumes inv: "sys_inv s"
  shows "sys_inv (step t s)"
proof (cases "pending s t")
  case Nil
  with inv show ?thesis by (simp add: step_def)
next
  case (Cons ev rest)
  from inv Cons have mine: "held_after (holder s = Some t) (ev # rest) \<noteq> None"
    unfolding sys_inv_def by metis
  from inv have others: "\<And>u. held_after (holder s = Some u) (pending s u) \<noteq> None"
    unfolding sys_inv_def by blast
  from inv have hist: "exclusive_from None (history s) = Some (holder s)"
    unfolding sys_inv_def by blast
  have quiet_step: "sys_inv (s\<lparr>pending := (pending s)(t := rest),
      history := history s @ [(t, ev)]\<rparr>)"
    if rest: "held_after (holder s = Some t) rest \<noteq> None"
      and same: "exclusive_from (holder s) [(t, ev)] = Some (holder s)"
  proof -
    have "sys_inv (s\<lparr>pending := (pending s)(t := rest), holder := holder s,
        history := history s @ [(t, ev)]\<rparr>)"
      using rest others hist same by (intro sys_inv_update) (simp_all add: exclusive_from_snoc)
    then show ?thesis by simp
  qed
  show ?thesis
  proof (cases ev)
    case Acquire
    show ?thesis
    proof (cases "holder s = None")
      case True
      from mine Acquire True have "held_after (Some t = Some t) rest \<noteq> None"
        by simp
      moreover from others True
      have "\<And>u. u \<noteq> t \<Longrightarrow> held_after (Some t = Some u) (pending s u) \<noteq> None"
        by simp
      moreover from hist True
      have "exclusive_from None (history s @ [(t, Acquire)]) = Some (Some t)"
        by (simp add: exclusive_from_snoc)
      ultimately have "sys_inv (s\<lparr>pending := (pending s)(t := rest), holder := Some t,
          history := history s @ [(t, Acquire)]\<rparr>)"
        by (rule sys_inv_update)
      with Cons Acquire True show ?thesis
        by (simp add: step_def)
    next
      case False
      with inv Cons Acquire show ?thesis by (auto simp: step_def)
    qed
  next
    case Release
    from mine Release have h: "holder s = Some t" and r: "held_after False rest \<noteq> None"
      by (auto split: if_splits)
    from r have "held_after (None = Some t) rest \<noteq> None"
      by simp
    moreover have "held_after (None = Some u) (pending s u) \<noteq> None" if "u \<noteq> t" for u
      using others [of u] h that by simp
    moreover from hist h
    have "exclusive_from None (history s @ [(t, Release)]) = Some None"
      by (simp add: exclusive_from_snoc)
    ultimately have "sys_inv (s\<lparr>pending := (pending s)(t := rest), holder := None,
        history := history s @ [(t, Release)]\<rparr>)"
      by (rule sys_inv_update)
    with Cons Release show ?thesis
      by (simp add: step_def)
  next
    case (Hw op)
    from mine Hw have h: "holder s = Some t" and r: "held_after True rest \<noteq> None"
      by (auto split: if_splits)
    from h r Hw have "sys_inv (s\<lparr>pending := (pending s)(t := rest),
        history := history s @ [(t, ev)]\<rparr>)"
      by (intro quiet_step) simp_all
    with Cons Hw show ?thesis
      by (simp add: step_def)
  next
    case (BusOpen n)
    with mine have "sys_inv (s\<lparr>pending := (pending s)(t := rest),
        history := history s @ [(t, ev)]\<rparr>)"
      by (intro quiet_step) simp_all
    with Cons BusOpen show ?thesis
      by (simp add: step_def)
  next
    case (BusWrite a r)
    with mine have "sys_inv (s\<lparr>pending := (pending s)(t := rest),
        history := history s @ [(t, ev)]\<rparr>)"
      by (intro quiet_step) simp_all
    with Cons BusWrite show ?thesis
      by (simp add: step_def)
  next
    case (BusRead a)
    with mine have "sys_inv (s\<lparr>pending := (pending s)(t := rest),
        history := history s @ [(t, ev)]\<rparr>)"
      by (intro quiet_step) simp_all
    with Cons BusRead show ?thesis
      by (simp add: step_def)
  next
    case (LogException msg)
    with mine have "sys_inv (s\<lparr>pending := (pending s)(t := rest),
        history := history s @ [(t, ev)]\<rparr>)"
      by (intro quiet_step) simp_all
    with Cons LogException show ?thesis
      by (simp add: step_def)
  next
    case (Sleep v)
    with mine have "sys_inv (s\<lparr>pending := (pending s)(t := rest),
        history := history s @ [(t, ev)]\<rparr>)"
      by (intro quiet_step) simp_all
    with Cons Sleep show ?thesis
      by (simp add: step_def)
  next
    case (AddCallback c v)
    with mine have "sys_inv (s\<lparr>pending := (pending s)(t := rest),
        history := history s @ [(t, ev)]\<rparr>)"
      by (intro quiet_step) simp_all
    with Cons AddCallback show ?thesis
      by (simp add: step_def)
  next
    case (StartThread name)
    with mine have "sys_inv (s\<lparr>pending := (pending s)(t := rest),
        history := history s @ [(t, ev)]\<rparr>)"
      by (intro quiet_step) simp_all
    with Cons StartThread show ?thesis
      by (simp add: step_def)
  qed
qed

lemma sys_inv_run: "sys_inv s \<Longrightarrow> sys_inv (run s sched)"
  by (induction sched arbitrary: s) (simp_all add: sys_inv_step)

text \<open>
  Claim C7. Every operation on the camera (the capture, the reads and the writes of
  resolution, framerate and exposure mode) holds \<open>camera_lock\<close> for all of its
  driver call: its events are the acquisition, the call, possibly a log entry, and the
  release. Therefore, for any number of threads that each perform any sequence of
  these operations, from whatever states of the device, mixed with pushes, log entries
  and sleeps, and for every schedule: in the history of the run every driver call is
  made by the thread that holds the lock, and between a thread's acquisition and its
  release no other thread acquires the lock or calls the driver. The history read
  from the free lock is in order and ends with the holder of the lock.
\<close>

theorem camera_calls_mutually_exclusive:
  "(\<exists>logs. events_since st (run_operation cam lib op st)
       = Acquire # Hw (call_of op) # map LogException logs @ [Release])
   \<and> exclusive_from None (history (run (start (\<lambda>t. thread_events cam lib (acts t))) sched))
       = Some (holder (run (start (\<lambda>t. thread_events cam lib (acts t))) sched))"
proof -
  have "sys_inv (start (\<lambda>t. thread_events cam lib (acts t)))"
    by (rule sys_inv_start) (simp add: held_after_thread)
  then have "sys_inv (run (start (\<lambda>t. thread_events cam lib (acts t))) sched)"
    by (rule sys_inv_run)
  then have "exclusive_from None (history (run (start (\<lambda>t. thread_events cam lib (acts t))) sched))
       = Some (holder (run (start (\<lambda>t. thread_events cam lib (acts t))) sched))"
    by (simp add: sys_inv_def)
  with operation_events [of st cam lib op] show ?thesis
    by blast
qed

text \<open>
  A run of two threads on the test camera: thread 0 captures an image and pushes it,
  thread 1 writes a resolution. Thread 1 is scheduled while thread 0 holds the lock
  and waits; its driver call comes after the release.
\<close>

theorem camera_calls_mutually_exclusive_witness:
  "history (run (start (\<lambda>t. thread_events fake_picamera fake_pylib
        (if t = 0 then [Perform GetStillImage fake_thing,
                        Push base64_still_image_value (PStr ''JFIF'')]
         else if t = 1 then [Perform (SetResolution (PStr ''800x600'')) fake_thing]
         else []))) [0, 1, 0, 0, 1, 0, 1, 1])
   = [(0, Acquire), (0, Hw Capture), (0, Release), (1, Acquire),
      (0, AddCallback base64_still_image_value (PStr ''JFIF'')),
      (1, Hw (Assign Resolution (PStr ''800x600''))), (1, Release)]
   \<and> exclusive_from None
        [(0, Acquire), (0, Hw Capture), (0, Release), (1, Acquire),
         (0, AddCallback base64_still_image_value (PStr ''JFIF'')),
         (1, Hw (Assign Resolution (PStr ''800x600''))), (1, Release)]
       = Some None"
proof -
  let ?acts = "\<lambda>t::nat. if t = 0 then [Perform GetStillImage fake_thing,
                        Push base64_still_image_value (PStr ''JFIF'')]
         else if t = 1 then [Perform (SetResolution (PStr ''800x600'')) fake_thing]
         else []"
  have poller: "thread_events fake_picamera fake_pylib (?acts 0)
      = [Acquire, Hw Capture, Release, AddCallback base64_still_image_value (PStr ''JFIF'')]"
    by (simp add: thread_events_def run_operation_def events_since_def facade_defs
          fake_camera_defs)
  have writer: "thread_events fake_picamera fake_pylib (?acts 1)
      = [Acquire, Hw (Assign Resolution (PStr ''800x600'')), Release]"
    by (simp add: thread_events_def run_operation_def events_since_def facade_defs
          fake_camera_defs)
  have progs: "(\<lambda>t. thread_events fake_picamera fake_pylib (?acts t))
      = (\<lambda>t. if t = 0 then [Acquire, Hw Capture, Release,
                              AddCallback base64_still_image_value (PStr ''JFIF'')]
              else if t = 1 then [Acquire, Hw (Assign Resolution (PStr ''800x600'')), Release]
              else [])"
    using poller writer by (auto simp: fun_eq_iff thread_events_def)
  have hist: "history (run (start (\<lambda>t. thread_events fake_picamera fake_pylib (?acts t)))
        [0, 1, 0, 0, 1, 0, 1, 1])
   = [(0, Acquire), (0, Hw Capture), (0, Release), (1, Acquire),
      (0, AddCallback base64_still_image_value (PStr ''JFIF'')),
      (1, Hw (Assign Resolution (PStr ''800x600''))), (1, Release)]"
    unfolding progs by (simp add: start_def step_def)
  have hold: "holder (run (start (\<lambda>t. thread_events fake_picamera fake_pylib (?acts t)))
        [0, 1, 0, 0, 1, 0, 1, 1]) = None"
    unfolding progs by (simp add: start_def step_def)
  from camera_calls_mutually_exclusive
    [where cam = fake_picamera and lib = fake_pylib and acts = ?acts
       and sched = "[0, 1, 0, 0, 1, 0, 1, 1]"]
  have "exclusive_from None (history (run (start (\<lambda>t. thread_events fake_picamera fake_pylib (?acts t)))
        [0, 1, 0, 0, 1, 0, 1, 1])) = Some None"
    unfolding hold by blast
  with hist show ?thesis
    by simp
qed

end
